theory Spec2Isabelle
  imports Complex_Main
begin

section \<open>JavaScript values as the scripts observe them\<close>

text \<open>
  The scripts read JSON bodies of HTTP responses and untyped fields of SDK results.
  A value is one of the JSON shapes or \<open>undefined\<close>. Numbers are kept as integers:
  the scripts only test them for truthiness and pass them on. An object is its list of
  own properties.
\<close>

datatype jsval =
    Undefined
  | Null
  | Bool bool
  | Num int
  | Str string
  | Arr "jsval list"
  | Obj "(string \<times> jsval) list"

text \<open>A thrown error is kept as its message; a call either throws or returns.\<close>

datatype 'a outcome = Throws string | Returns 'a

text \<open>Truthiness, as \<open>if (v)\<close>, \<open>!v\<close> and \<open>v || w\<close> test it.\<close>

fun truthy :: "jsval \<Rightarrow> bool" where
  "truthy Undefined = False"
| "truthy Null = False"
| "truthy (Bool b) = b"
| "truthy (Num n) = (n \<noteq> 0)"
| "truthy (Str s) = (s \<noteq> [])"
| "truthy (Arr xs) = True"
| "truthy (Obj kvs) = True"

text \<open>
  Property read \<open>v.k\<close> for the property names the scripts use on response data
  (\<open>result\<close>, \<open>tools\<close>, \<open>prompts\<close>, \<open>resources\<close>, \<open>name\<close>, \<open>uri\<close>,
  \<open>endpoints\<close>, \<open>mcpTools\<close>, \<open>mcpPrompts\<close>, \<open>mcpResources\<close>, \<open>version\<close>,
  \<open>protocol\<close>): reading from
  \<open>undefined\<close> or \<open>null\<close> throws a TypeError, an object gives the property or
  \<open>undefined\<close>, and a primitive or an array has none of these properties.
\<close>

fun get_prop :: "jsval \<Rightarrow> string \<Rightarrow> jsval outcome" where
  "get_prop Undefined k = Throws ''TypeError: cannot read properties of undefined''"
| "get_prop Null k = Throws ''TypeError: cannot read properties of null''"
| "get_prop (Obj kvs) k = Returns (case map_of kvs k of None \<Rightarrow> Undefined | Some v \<Rightarrow> v)"
| "get_prop v k = Returns Undefined"

text \<open>Optional chaining \<open>v?.k\<close>: \<open>undefined\<close> when \<open>v\<close> is \<open>undefined\<close> or \<open>null\<close>.\<close>

fun opt_prop :: "jsval \<Rightarrow> string \<Rightarrow> jsval" where
  "opt_prop (Obj kvs) k = (case map_of kvs k of None \<Rightarrow> Undefined | Some v \<Rightarrow> v)"
| "opt_prop v k = Undefined"

text \<open>\<open>Array.isArray(v)\<close>, \<open>v.length\<close> of an array and the element read \<open>v[i]\<close>.\<close>

fun isArray :: "jsval \<Rightarrow> bool" where
  "isArray (Arr xs) = True"
| "isArray v = False"

fun array_length :: "jsval \<Rightarrow> nat" where
  "array_length (Arr xs) = length xs"
| "array_length v = 0"

fun element :: "jsval \<Rightarrow> nat \<Rightarrow> jsval" where
  "element (Arr xs) i = (if i < length xs then xs ! i else Undefined)"
| "element v i = Undefined"

text \<open>
  Conversion to a string, as a template literal \<open>`${v}`\<close> and \<open>xs.join(', ')\<close> do it.
  For a value that came from JSON it throws a TypeError exactly when it meets an object
  with an own property \<open>toString\<close>: that property is not callable, and \<open>valueOf\<close> gives
  no primitive. An object without it prints by \<open>Object.prototype.toString\<close>, an array
  prints its elements, and \<open>null\<close> and \<open>undefined\<close> print. Only whether the conversion
  throws is kept, not the string.
\<close>

fun stringable :: "jsval \<Rightarrow> bool" where
  "stringable (Arr xs) = (\<forall>x\<in>set xs. stringable x)"
| "stringable (Obj kvs) = (map_of kvs ''toString'' = None)"
| "stringable v = True"

definition to_string :: "jsval \<Rightarrow> unit outcome" where
  "to_string v =
     (if stringable v then Returns ()
      else Throws ''TypeError: Cannot convert object to primitive value'')"

definition js_join :: "jsval list \<Rightarrow> unit outcome" where
  "js_join xs = to_string (Arr xs)"

text \<open>
  \<open>v.join(', ')\<close> on a truthy value that came from JSON: only an array has a \<open>join\<close>
  method.
\<close>

definition method_join :: "jsval \<Rightarrow> unit outcome" where
  "method_join v =
     (case v of Arr xs \<Rightarrow> js_join xs | _ \<Rightarrow> Throws ''TypeError: join is not a function'')"

text \<open>
  \<open>v?.length\<close>: the length of an array or a string, the own property of an object,
  \<open>undefined\<close> otherwise.
\<close>

fun opt_length :: "jsval \<Rightarrow> jsval" where
  "opt_length (Arr xs) = Num (int (length xs))"
| "opt_length (Str s) = Num (int (length s))"
| "opt_length (Obj kvs) = (case map_of kvs ''length'' of None \<Rightarrow> Undefined | Some v \<Rightarrow> v)"
| "opt_length v = Undefined"

text \<open>\<open>v || w\<close>.\<close>

definition js_or :: "jsval \<Rightarrow> jsval \<Rightarrow> jsval" where
  "js_or v w = (if truthy v then v else w)"

section \<open>The feedback index (fullflow-mcp-subgraph.js line 489, src/unnamed/part_003 line 477)\<close>

text \<open>
  \<^verbatim>\<open>const feedbackIndex = Array.isArray(feedback.id) && feedback.id.length === 3 ? feedback.id[2] : 0;\<close>
  The argument is the value of \<open>feedback.id\<close>.
\<close>

definition feedbackIndex :: "jsval \<Rightarrow> jsval" where
  "feedbackIndex fid =
     (if isArray fid \<and> array_length fid = 3 then element fid 2 else Num 0)"

section \<open>The calculate tool of the local MCP server (mcp-server.ts lines 98-144)\<close>

text \<open>
  The arguments are cast to \<open>{ operation: string; a: number; b: number }\<close>. JavaScript
  numbers are doubles; the handler uses only the four arithmetic operators and the test
  \<open>b === 0\<close>, which are parameters of the model. The text of a result is the template
  literal of the source: its string pieces and the numbers it interpolates.
\<close>

record 'n js_number =
  js_add :: "'n \<Rightarrow> 'n \<Rightarrow> 'n"
  js_sub :: "'n \<Rightarrow> 'n \<Rightarrow> 'n"
  js_mul :: "'n \<Rightarrow> 'n \<Rightarrow> 'n"
  js_div :: "'n \<Rightarrow> 'n \<Rightarrow> 'n"
  is_zero :: "'n \<Rightarrow> bool"

datatype 'n piece = S string | N 'n

text \<open>A tool result \<open>{ content: [{ type: "text", text }] }\<close>.\<close>

datatype 'n tool_result = TextContent "'n piece list"

definition calculate :: "'n js_number \<Rightarrow> string \<Rightarrow> 'n \<Rightarrow> 'n \<Rightarrow> 'n tool_result" where
  "calculate J operation a b =
     (let finish = (\<lambda>result.
            TextContent [S ''Result: '', N a, S '' '', S operation, S '' '', N b, S '' = '', N result])
      in if operation = ''add'' then finish (js_add J a b)
         else if operation = ''subtract'' then finish (js_sub J a b)
         else if operation = ''multiply'' then finish (js_mul J a b)
         else if operation = ''divide'' then
           (if is_zero J b then TextContent [S ''Error: Division by zero'']
            else finish (js_div J a b))
         else TextContent [S ''Error: Unknown operation '', S operation])"

text \<open>Exact rational arithmetic, an instance on which the handler can be run.\<close>

definition rat_number :: "rat js_number" where
  "rat_number = \<lparr> js_add = (+), js_sub = (-), js_mul = (*), js_div = (/), is_zero = (\<lambda>x. x = 0) \<rparr>"

section \<open>Effects: the event log and thrown errors\<close>

text \<open>
  A script is a sequence of awaited calls, waits and console lines. A computation yields
  the events it produced, in order, and either the error it threw or its value. The
  banner lines and the lines that only echo a value are not events; every warning,
  error report and step outcome is.
\<close>

datatype capability_kind = Tools | Prompts | Resources

datatype call =
    Fetch_info
  | Fetch_mcp capability_kind
  | Fetch_ipfs string
  | New_Wallet string
  | ChainId
  | GetBalance string
  | Registries
  | SearchAgents
  | CreateAgent
  | SetMCP
  | SetMcpCapabilities "jsval list" "jsval list" "jsval list"
  | SetActive
  | RegisterIPFS
  | GetAgent string
  | LoadAgent string
  | PrepareFeedback string int
  | GiveFeedback string string
  | SearchFeedback string
  | GetReputationSummary string
  | GetFeedback string string jsval
  | SearchAgentsByReputation

datatype message =
    MCP_returned_status nat
  | MCP_accessible
  | MCP_connectivity_failed string
  | Agent_found_in_subgraph
  | Agent_not_found_in_subgraph
  | Subgraph_query_failed string
  | Agents_found nat
  | Agent_search_failed string
  | Feedbacks_found nat
  | Reputation_summary
  | Feedback_query_failed string
  | Configuration_shown
  | Warn_no_feedback_key
  | Warn_mcp_not_accessible
  | Ipfs_configured
  | Warn_no_ipfs_configuration
  | Sdk_initialized
  | Warn_feedback_wallet_empty
  | Warn_wallet_empty
  | Agent_created
  | Found_capabilities capability_kind "jsval list"
  | Could_not_fetch capability_kind string
  | Mcp_endpoint_configured
  | Mcp_capabilities_added
  | Agent_set_active
  | Error_configuring_mcp string
  | Registering_agent
  | Agent_registered
  | Ipfs_content_shown
  | Mcp_endpoint_in_ipfs
  | No_mcp_endpoint_in_ipfs
  | Could_not_fetch_ipfs string
  | Waiting_for_indexing
  | Not_found_yet
  | Retry nat
  | Warn_not_indexed_continuing
  | Agent_verified
  | Agent_loaded
  | Error_loading_agent string
  | Skipping_feedback
  | Feedback_prepared
  | Feedback_submitted
  | Feedback_retrieved
  | Error_retrieving_feedback string
  | Error_in_feedback_flow string
  | Found_our_agent
  | Completed
  | Feedback_key_reminder
  | Read_only_notice
  | Signer_created
  | Read_only_mode bool
  | No_test_agent_id
  | Step_failed string
  | Skipping_write_transactions
  | Fatal_error string

datatype event = Sleep nat | Call call | Log message

type_synonym 'a io = "event list \<times> (string + 'a)"

definition ret :: "'a \<Rightarrow> 'a io" where
  "ret a = ([], Inr a)"

definition throw :: "string \<Rightarrow> 'a io" where
  "throw e = ([], Inl e)"

definition emit :: "event \<Rightarrow> unit io" where
  "emit ev = ([ev], Inr ())"

definition logged :: "message \<Rightarrow> unit io" where
  "logged m = emit (Log m)"

text \<open>A pure step that may throw (a property read, \<open>response.json()\<close>).\<close>

definition lift :: "'a outcome \<Rightarrow> 'a io" where
  "lift out = ([], case out of Throws e \<Rightarrow> Inl e | Returns a \<Rightarrow> Inr a)"

text \<open>An awaited external call: the call is made, then it throws or returns.\<close>

definition awaited :: "call \<Rightarrow> 'a outcome \<Rightarrow> 'a io" where
  "awaited c out = ([Call c], case out of Throws e \<Rightarrow> Inl e | Returns a \<Rightarrow> Inr a)"

definition io_bind :: "'a io \<Rightarrow> ('a \<Rightarrow> 'b io) \<Rightarrow> 'b io" where
  "io_bind m f =
     (case m of
        (l, Inl e) \<Rightarrow> (l, Inl e)
      | (l, Inr a) \<Rightarrow> (case f a of (l', r) \<Rightarrow> (l @ l', r)))"

definition io_then :: "unit io \<Rightarrow> 'b io \<Rightarrow> 'b io" where
  "io_then m k = io_bind m (\<lambda>_. k)"

text \<open>\<open>try { m } catch (e) { h e }\<close>.\<close>

definition try_catch :: "'a io \<Rightarrow> (string \<Rightarrow> 'a io) \<Rightarrow> 'a io" where
  "try_catch m h =
     (case m of
        (l, Inl e) \<Rightarrow> (case h e of (l', r) \<Rightarrow> (l @ l', r))
      | (l, Inr a) \<Rightarrow> (l, Inr a))"

section \<open>The outside world\<close>

text \<open>
  An HTTP response: its status (\<open>response.ok\<close> is a status from 200 to 299) and what
  \<open>response.json()\<close> gives.
\<close>

record http_response =
  status :: nat
  body :: "jsval outcome"

definition resp_ok :: "http_response \<Rightarrow> bool" where
  "resp_ok r = (200 \<le> status r \<and> status r \<le> 299)"

text \<open>Results of SDK calls, with the fields of their declared types that the scripts use.\<close>

record agent_summary =
  as_agentId :: string
  as_name :: string

record registration_file =
  rf_agentId :: "string option"
  rf_agentURI :: "string option"

record feedback_file =
  ff_agentId :: string
  ff_score :: int

record feedback =
  fb_id :: jsval
  fb_reviewer :: string
  fb_score :: int
  fb_createdAt :: int

record reputation =
  rep_count :: nat
  rep_averageScore :: int

text \<open>
  The environment of a run: the configuration variables and, for every external call, what
  it does when made. A call made several times (\<open>getAgent\<close>, \<open>searchAgents\<close>) answers by
  the number of earlier calls. \<open>CHAIN_ID\<close> and the default of \<open>RPC_URL\<close> in the basic
  test suite only reach the configuration of the SDK and are left out.
\<close>

record env =
  RPC_URL :: "string option"
  PRIVATE_KEY :: "string option"
  FEEDBACK_PRIVATE_KEY :: "string option"
  PINATA_JWT :: "string option"
  TEST_AGENT_ID :: "string option"
  wallet :: "string \<Rightarrow> string outcome"
  fetch_info :: "http_response outcome"
  fetch_mcp :: "capability_kind \<Rightarrow> http_response outcome"
  fetch_ipfs :: "string \<Rightarrow> http_response outcome"
  chainId :: "nat outcome"
  getBalance :: "string \<Rightarrow> nat outcome"
  registries :: "(string \<times> string) list outcome"
  searchAgents :: "nat \<Rightarrow> agent_summary list outcome"
  createAgent :: "unit outcome"
  setMCP :: "unit outcome"
  setMcpCapabilities :: "unit outcome"
  setActive :: "unit outcome"
  registerIPFS :: "registration_file outcome"
  getAgent :: "string \<Rightarrow> nat \<Rightarrow> agent_summary option outcome"
  loadAgent :: "string \<Rightarrow> agent_summary outcome"
  prepare_fault :: "string option"
  giveFeedback :: "string \<Rightarrow> feedback_file \<Rightarrow> string \<Rightarrow> feedback outcome"
  searchFeedback :: "string \<Rightarrow> feedback list outcome"
  getReputationSummary :: "string \<Rightarrow> reputation outcome"
  getFeedback :: "string \<Rightarrow> string \<Rightarrow> jsval \<Rightarrow> feedback outcome"
  searchAgentsByReputation :: "agent_summary list outcome"

text \<open>
  An optional string passes \<open>if (v)\<close> when it is defined and not the empty string; so
  for a configuration variable and for a field of an SDK result.
\<close>

definition configured :: "string option \<Rightarrow> string option" where
  "configured v = (case v of None \<Rightarrow> None | Some s \<Rightarrow> if s = [] then None else Some s)"

subsection \<open>The SDK facade\<close>

record sdk_config =
  cfg_signer :: "string option"
  cfg_ipfs :: "string option"
  cfg_pinataJwt :: "string option"

record sdk =
  isReadOnly :: bool
  ipfsClient :: bool

text \<open>
  Modelled from the spec: the constructor of FluidSDK (\<open>dist/index.js\<close> is not among the
  sources). Read-only mode is the state of a client configured without a signer and is
  not an error; a client has a content-storage client when a pinning credential is
  configured.
\<close>

definition FluidSDK :: "sdk_config \<Rightarrow> sdk" where
  "FluidSDK cfg = \<lparr> isReadOnly = (cfg_signer cfg = None), ipfsClient = (cfg_ipfs cfg \<noteq> None) \<rparr>"

text \<open>
  Modelled from the spec: the score validation of \<open>prepareFeedback\<close> (in the SDK, not among
  the sources). A score outside 1 to 5 is rejected; a score inside is kept as it is.
\<close>

definition prepareFeedback :: "env \<Rightarrow> string \<Rightarrow> int \<Rightarrow> feedback_file outcome" where
  "prepareFeedback env agentId score =
     (if score < 1 \<or> 5 < score then Throws ''score must be between 1 and 5''
      else case prepare_fault env of
             Some e \<Rightarrow> Throws e
           | None \<Rightarrow> Returns \<lparr> ff_agentId = agentId, ff_score = score \<rparr>)"

section \<open>fullflow-mcp-subgraph.js: the helper functions\<close>

text \<open>
  \<open>testMCPConnectivity\<close> (lines 23-47). After the line that says the server is
  accessible, two lines interpolate \<open>data?.version || 'unknown'\<close> and
  \<open>data?.protocol || 'unknown'\<close>, inside the \<open>try\<close>.
\<close>

definition testMCPConnectivity :: "env \<Rightarrow> bool io" where
  "testMCPConnectivity env =
     try_catch
       (io_bind (awaited Fetch_info (fetch_info env)) (\<lambda>response.
          if \<not> resp_ok response then
            io_then (logged (MCP_returned_status (status response))) (ret False)
          else
            io_bind (lift (body response)) (\<lambda>data.
            io_then (logged MCP_accessible)
           (io_then (lift (to_string (js_or (opt_prop data ''version'') (Str ''unknown''))))
           (io_then (lift (to_string (js_or (opt_prop data ''protocol'') (Str ''unknown''))))
              (ret True))))))
       (\<lambda>e. io_then (logged (MCP_connectivity_failed e)) (ret False))"

text \<open>
  \<open>queryAgentFromSubgraph\<close> (lines 51-82); \<open>n\<close> is the number of lookups made before
  this one. A lookup that throws counts as an agent that is absent. A summary that is
  returned has the fields of its declared type, so that printing it does not throw.
\<close>

definition queryAgentFromSubgraph :: "env \<Rightarrow> string \<Rightarrow> nat \<Rightarrow> agent_summary option io" where
  "queryAgentFromSubgraph env agentId n =
     try_catch
       (io_bind (awaited (GetAgent agentId) (getAgent env agentId n)) (\<lambda>agent.
          case agent of
            Some a \<Rightarrow> io_then (logged Agent_found_in_subgraph) (ret (Some a))
          | None \<Rightarrow> io_then (logged Agent_not_found_in_subgraph) (ret None)))
       (\<lambda>e. io_then (logged (Subgraph_query_failed e)) (ret None))"

text \<open>\<open>searchAgentsInSubgraph\<close> (lines 86-100); \<open>n\<close> counts the earlier searches.\<close>

definition searchAgentsInSubgraph :: "env \<Rightarrow> nat \<Rightarrow> agent_summary list io" where
  "searchAgentsInSubgraph env n =
     try_catch
       (io_bind (awaited SearchAgents (searchAgents env n)) (\<lambda>items.
          io_then (logged (Agents_found (length items))) (ret items)))
       (\<lambda>e. io_then (logged (Agent_search_failed e)) (ret []))"

text \<open>\<open>queryFeedbackFromSubgraph\<close> (lines 104-126): one \<open>try\<close> around both queries.\<close>

definition queryFeedbackFromSubgraph :: "env \<Rightarrow> string \<Rightarrow> unit io" where
  "queryFeedbackFromSubgraph env agentId =
     try_catch
       (io_bind (awaited (SearchFeedback agentId) (searchFeedback env agentId)) (\<lambda>feedbacks.
          io_then (logged (Feedbacks_found (length feedbacks)))
         (io_bind (awaited (GetReputationSummary agentId) (getReputationSummary env agentId))
            (\<lambda>reputation. logged Reputation_summary))))
       (\<lambda>e. logged (Feedback_query_failed e))"

section \<open>fullflow-mcp-subgraph.js: MCP capability probing (lines 251-322)\<close>

text \<open>\<open>xs.map(f)\<close> with a callback that may throw: the first throw ends the map.\<close>

fun map_outcome :: "('a \<Rightarrow> 'b outcome) \<Rightarrow> 'a list \<Rightarrow> 'b list outcome" where
  "map_outcome f [] = Returns []"
| "map_outcome f (x # xs) =
     (case f x of
        Throws e \<Rightarrow> Throws e
      | Returns y \<Rightarrow>
          (case map_outcome f xs of Throws e \<Rightarrow> Throws e | Returns ys \<Rightarrow> Returns (y # ys)))"

text \<open>\<open>v.map(f)\<close> on a truthy value: only an array has a \<open>map\<close> method.\<close>

definition js_map :: "(jsval \<Rightarrow> jsval outcome) \<Rightarrow> jsval \<Rightarrow> jsval list outcome" where
  "js_map f v =
     (case v of Arr xs \<Rightarrow> map_outcome f xs | _ \<Rightarrow> Throws ''TypeError: map is not a function'')"

text \<open>
  The three blocks differ in the JSON-RPC method, the field of the result and the callback
  of \<open>map\<close>: \<open>(t) => t.name\<close>, \<open>(p) => p.name\<close> and \<open>(r) => r.uri || r.name\<close>.
  The list is a variable, empty at first and assigned from the \<open>map\<close>; the line that
  reports it then joins the names, still inside the \<open>try\<close>. So the one \<open>catch\<close> of
  the source is met with the empty list when something threw before the assignment, and
  with the assigned list when the join threw.
\<close>

fun list_field :: "capability_kind \<Rightarrow> string" where
  "list_field Tools = ''tools''"
| "list_field Prompts = ''prompts''"
| "list_field Resources = ''resources''"

fun entry_name :: "capability_kind \<Rightarrow> jsval \<Rightarrow> jsval outcome" where
  "entry_name Tools t = get_prop t ''name''"
| "entry_name Prompts p = get_prop p ''name''"
| "entry_name Resources r =
     (case get_prop r ''uri'' of
        Throws e \<Rightarrow> Throws e
      | Returns u \<Rightarrow> if truthy u then Returns u else get_prop r ''name'')"

definition fetch_capability :: "env \<Rightarrow> capability_kind \<Rightarrow> jsval list io" where
  "fetch_capability env kind =
     try_catch
       (io_bind (awaited (Fetch_mcp kind) (fetch_mcp env kind)) (\<lambda>response.
          if resp_ok response then
            io_bind (lift (body response)) (\<lambda>data.
            io_bind (lift (get_prop data ''result'')) (\<lambda>result.
              let listed = opt_prop result (list_field kind) in
              if truthy listed then
                io_bind (lift (js_map (entry_name kind) listed)) (\<lambda>names.
                try_catch
                  (io_then (lift (js_join names))
                  (io_then (logged (Found_capabilities kind names)) (ret names)))
                  (\<lambda>e. io_then (logged (Could_not_fetch kind e)) (ret names)))
              else ret []))
          else ret []))
       (\<lambda>e. io_then (logged (Could_not_fetch kind e)) (ret []))"

definition fetch_mcp_capabilities :: "env \<Rightarrow> (jsval list \<times> jsval list \<times> jsval list) io" where
  "fetch_mcp_capabilities env =
     io_bind (fetch_capability env Tools) (\<lambda>mcpTools.
     io_bind (fetch_capability env Prompts) (\<lambda>mcpPrompts.
     io_bind (fetch_capability env Resources) (\<lambda>mcpResources.
       ret (mcpTools, mcpPrompts, mcpResources))))"

section \<open>fullflow-mcp-subgraph.js: the steps of main\<close>

text \<open>Lines 143-173: the configuration and the signers (their addresses).\<close>

definition configure :: "env \<Rightarrow> (string \<times> string option) io" where
  "configure env =
     (case configured (RPC_URL env) of
        None \<Rightarrow> throw ''RPC_URL not set in .env file''
      | Some url \<Rightarrow>
     (case configured (PRIVATE_KEY env) of
        None \<Rightarrow> throw ''PRIVATE_KEY not set in .env file - write operations require a signer''
      | Some key \<Rightarrow>
          io_bind (awaited (New_Wallet key) (wallet env key)) (\<lambda>signer.
            case configured (FEEDBACK_PRIVATE_KEY env) of
              Some fkey \<Rightarrow>
                io_bind (awaited (New_Wallet fkey) (wallet env fkey)) (\<lambda>feedbackSigner.
                io_then (logged Configuration_shown) (ret (signer, Some feedbackSigner)))
            | None \<Rightarrow> io_then (logged Warn_no_feedback_key) (ret (signer, None)))))"

text \<open>Lines 174-229: connectivity, the SDK, the balances and the registries.\<close>

definition initialize :: "env \<Rightarrow> string \<Rightarrow> string option \<Rightarrow> sdk io" where
  "initialize env signer feedbackSigner =
     io_bind (testMCPConnectivity env) (\<lambda>mcpConnected.
     io_then (if \<not> mcpConnected then logged Warn_mcp_not_accessible else ret ())
    (let jwt = configured (PINATA_JWT env);
         sdkConfig = \<lparr> cfg_signer = Some signer,
                       cfg_ipfs = (if jwt \<noteq> None then Some ''pinata'' else None),
                       cfg_pinataJwt = jwt \<rparr>
     in
     io_then (logged (if jwt \<noteq> None then Ipfs_configured else Warn_no_ipfs_configuration))
    (let sdk = FluidSDK sdkConfig in
     io_then (logged Sdk_initialized)
    (io_bind (awaited ChainId (chainId env)) (\<lambda>chain.
     io_bind (awaited (GetBalance signer) (getBalance env signer)) (\<lambda>balance.
     io_then
       (case feedbackSigner of
          None \<Rightarrow> ret ()
        | Some reviewer \<Rightarrow>
            io_bind (awaited (GetBalance reviewer) (getBalance env reviewer)) (\<lambda>feedbackBalance.
              if feedbackBalance = 0 then
                io_then (logged Warn_feedback_wallet_empty)
                  (throw ''Insufficient balance in feedback wallet'')
              else ret ()))
    (io_then
       (if balance = 0 then
          io_then (logged Warn_wallet_empty) (throw ''Insufficient balance for testing'')
        else ret ())
    (io_bind (awaited Registries (registries env)) (\<lambda>regs.
       if regs = [] then throw ''No registry addresses configured for chain''
       else ret sdk)))))))))"

text \<open>
  Lines 230-344: the existing agents, the new agent and its MCP endpoint. The three lines
  after "MCP capabilities added" join the names of each list (lines 333-335), inside the
  \<open>try\<close> whose \<open>catch\<close> reports and throws again.
\<close>

definition create_agent :: "env \<Rightarrow> unit io" where
  "create_agent env =
     io_bind (searchAgentsInSubgraph env 0) (\<lambda>existing.
     io_bind (awaited CreateAgent (createAgent env)) (\<lambda>agent.
     io_then (logged Agent_created)
    (try_catch
       (io_bind (fetch_mcp_capabilities env) (\<lambda>(mcpTools, mcpPrompts, mcpResources).
        io_bind (awaited SetMCP (setMCP env)) (\<lambda>_.
        io_then (logged Mcp_endpoint_configured)
       (io_then
          (if mcpTools \<noteq> [] \<or> mcpPrompts \<noteq> [] \<or> mcpResources \<noteq> [] then
             io_bind (awaited (SetMcpCapabilities mcpTools mcpPrompts mcpResources)
                        (setMcpCapabilities env)) (\<lambda>_.
             io_then (logged Mcp_capabilities_added)
            (io_then (lift (js_join mcpTools))
            (io_then (lift (js_join mcpPrompts))
               (lift (js_join mcpResources)))))
           else ret ())
       (io_bind (awaited SetActive (setActive env)) (\<lambda>_.
        logged Agent_set_active))))))
       (\<lambda>error. io_then (logged (Error_configuring_mcp error)) (throw error)))))"

text \<open>\<open>s.replace(pat, rep)\<close> with a string pattern: the first occurrence is replaced.\<close>

fun replace_first :: "string \<Rightarrow> string \<Rightarrow> string \<Rightarrow> string" where
  "replace_first pat rep [] = (if pat = [] then rep else [])"
| "replace_first pat rep (c # cs) =
     (if take (length pat) (c # cs) = pat then rep @ drop (length pat) (c # cs)
      else c # replace_first pat rep cs)"

text \<open>\<open>xs.find(p)\<close> with a callback that may throw.\<close>

fun find_outcome :: "('a \<Rightarrow> bool outcome) \<Rightarrow> 'a list \<Rightarrow> 'a option outcome" where
  "find_outcome p [] = Returns None"
| "find_outcome p (x # xs) =
     (case p x of
        Throws e \<Rightarrow> Throws e
      | Returns b \<Rightarrow> if b then Returns (Some x) else find_outcome p xs)"

text \<open>\<open>(e) => e.name === 'MCP' || e.name === 'mcp'\<close> and \<open>endpoints?.find(...)\<close>.\<close>

definition is_mcp_endpoint :: "jsval \<Rightarrow> bool outcome" where
  "is_mcp_endpoint e =
     (case get_prop e ''name'' of
        Throws x \<Rightarrow> Throws x
      | Returns n \<Rightarrow> Returns (n = Str ''MCP'' \<or> n = Str ''mcp''))"

definition find_mcp_endpoint :: "jsval \<Rightarrow> jsval option outcome" where
  "find_mcp_endpoint endpoints =
     (case endpoints of
        Undefined \<Rightarrow> Returns None
      | Null \<Rightarrow> Returns None
      | Arr es \<Rightarrow> find_outcome is_mcp_endpoint es
      | _ \<Rightarrow> Throws ''TypeError: find is not a function'')"

text \<open>
  Lines 361-389: the pinned content is fetched and shown; nothing here is fatal. The
  three counts are \<open>mcpEndpoint.mcpTools?.length || 0\<close> and its like, interpolated; the
  tool list is joined when \<open>mcpTools\<close> is truthy.
\<close>

definition show_ipfs_content :: "env \<Rightarrow> string \<Rightarrow> unit io" where
  "show_ipfs_content env ipfsCid =
     try_catch
       (io_bind (awaited (Fetch_ipfs ipfsCid) (fetch_ipfs env ipfsCid)) (\<lambda>response.
          if resp_ok response then
            io_bind (lift (body response)) (\<lambda>ipfsContent.
            io_then (logged Ipfs_content_shown)
           (io_bind (lift (get_prop ipfsContent ''endpoints'')) (\<lambda>endpoints.
            io_bind (lift (find_mcp_endpoint endpoints)) (\<lambda>mcpEndpoint.
              case mcpEndpoint of
                Some ep \<Rightarrow>
                  io_then (logged Mcp_endpoint_in_ipfs)
                 (io_then (lift (to_string (js_or (opt_length (opt_prop ep ''mcpTools'')) (Num 0))))
                 (io_then (lift (to_string (js_or (opt_length (opt_prop ep ''mcpPrompts'')) (Num 0))))
                 (io_then (lift (to_string (js_or (opt_length (opt_prop ep ''mcpResources'')) (Num 0))))
                    (let mcpTools = opt_prop ep ''mcpTools'' in
                     if truthy mcpTools then lift (method_join mcpTools) else ret ()))))
              | None \<Rightarrow> logged No_mcp_endpoint_in_ipfs))))
          else ret ()))
       (\<lambda>e. logged (Could_not_fetch_ipfs e))"

text \<open>Lines 345-393: the registration; the value is the new agent's identifier.\<close>

definition register_agent :: "env \<Rightarrow> sdk \<Rightarrow> string io" where
  "register_agent env sdk =
     (if \<not> ipfsClient sdk then throw ''IPFS client not configured - cannot register agent''
      else
        io_then (logged Registering_agent)
       (io_bind (awaited RegisterIPFS (registerIPFS env)) (\<lambda>registrationFile.
        io_then (logged Agent_registered)
       (let ipfsCid = map_option (replace_first ''ipfs://'' []) (rf_agentURI registrationFile) in
        io_then
          (case configured ipfsCid of
             Some cid \<Rightarrow> show_ipfs_content env cid
           | None \<Rightarrow> ret ())
          (case configured (rf_agentId registrationFile) of
             None \<Rightarrow> throw ''Registration failed - no agent ID returned''
           | Some newAgentId \<Rightarrow> ret newAgentId)))))"

text \<open>
  Lines 405-411: the retry loop. \<open>i\<close> is the loop variable; the lookup of round \<open>i\<close> is
  the lookup number \<open>i + 1\<close> of the run.
\<close>

function retry_lookup :: "env \<Rightarrow> string \<Rightarrow> nat \<Rightarrow> agent_summary option io" where
  "retry_lookup env agentId i =
     (if i < 3 then
        io_then (emit (Sleep 10000))
       (io_then (logged (Retry (i + 1)))
       (io_bind (queryAgentFromSubgraph env agentId (i + 1)) (\<lambda>agentData.
          if agentData \<noteq> None then ret agentData
          else retry_lookup env agentId (i + 1))))
      else ret None)"
  by pat_completeness auto
termination
  by (relation "measure (\<lambda>(env, agentId, i). 3 - i)") auto

declare retry_lookup.simps [simp del]

text \<open>Lines 394-420: the wait after the registration and the verification by lookups.\<close>

definition verify_registration :: "env \<Rightarrow> string \<Rightarrow> agent_summary option io" where
  "verify_registration env newAgentId =
     io_then (logged Waiting_for_indexing)
    (io_then (emit (Sleep 10000))
    (io_bind (queryAgentFromSubgraph env newAgentId 0) (\<lambda>first.
     io_bind
       (if first = None then io_then (logged Not_found_yet) (retry_lookup env newAgentId 0)
        else ret first) (\<lambda>agentData.
     io_then
       (if agentData = None then logged Warn_not_indexed_continuing else logged Agent_verified)
       (ret agentData)))))"

text \<open>Lines 421-434.\<close>

definition load_agent :: "env \<Rightarrow> string \<Rightarrow> unit io" where
  "load_agent env newAgentId =
     try_catch
       (io_bind (awaited (LoadAgent newAgentId) (loadAgent env newAgentId)) (\<lambda>loadedAgent.
          logged Agent_loaded))
       (\<lambda>e. logged (Error_loading_agent e))"

text \<open>
  \<open>new Date(createdAt * 1000).toISOString()\<close> throws a RangeError outside the range of
  dates, 8640000000000000 milliseconds on either side of the epoch.
\<close>

definition toISOString :: "int \<Rightarrow> unit outcome" where
  "toISOString ms =
     (if \<bar>ms\<bar> \<le> 8640000000000000 then Returns () else Throws ''RangeError: Invalid time value'')"

text \<open>Lines 488-504: the index of the feedback and its direct retrieval.\<close>

definition retrieve_specific_feedback :: "env \<Rightarrow> string \<Rightarrow> string \<Rightarrow> feedback \<Rightarrow> unit io" where
  "retrieve_specific_feedback env newAgentId reviewer fb =
     (let idx = feedbackIndex (fb_id fb) in
      try_catch
        (io_bind (awaited (GetFeedback newAgentId reviewer idx)
                    (getFeedback env newAgentId reviewer idx)) (\<lambda>retrievedFeedback.
         io_then (logged Feedback_retrieved)
           (lift (toISOString (fb_createdAt retrievedFeedback * 1000)))))
        (\<lambda>e. logged (Error_retrieving_feedback e)))"

text \<open>
  Lines 435-512: the feedback step. The score is the literal 5 of line 446, made a
  parameter here; \<open>feedbackSigner\<close> is the reviewer's address when a second key is
  configured.
\<close>

definition submit_feedback :: "int \<Rightarrow> env \<Rightarrow> string \<Rightarrow> string option \<Rightarrow> unit io" where
  "submit_feedback score env newAgentId feedbackSigner =
     (case feedbackSigner of
        None \<Rightarrow> logged Skipping_feedback
      | Some reviewer \<Rightarrow>
          try_catch
            (io_bind (awaited (PrepareFeedback newAgentId score)
                        (prepareFeedback env newAgentId score)) (\<lambda>feedbackFile.
             io_then (logged Feedback_prepared)
            (io_bind (awaited (GiveFeedback newAgentId reviewer)
                        (giveFeedback env newAgentId feedbackFile reviewer)) (\<lambda>fb.
             io_then (logged Feedback_submitted)
            (io_then (emit (Sleep 10000))
            (io_then (queryFeedbackFromSubgraph env newAgentId)
            (retrieve_specific_feedback env newAgentId reviewer fb)))))))
            (\<lambda>e. logged (Error_in_feedback_flow e)))"

text \<open>Lines 513-546: the last search and the summary.\<close>

definition finish :: "env \<Rightarrow> string \<Rightarrow> string option \<Rightarrow> unit io" where
  "finish env newAgentId feedbackSigner =
     io_bind (searchAgentsInSubgraph env 1) (\<lambda>searchResults.
     io_then
       (if find (\<lambda>a. as_agentId a = newAgentId) searchResults \<noteq> None
        then logged Found_our_agent else ret ())
    (io_then (logged Completed)
       (if feedbackSigner = None then logged Feedback_key_reminder else ret ())))"

text \<open>
  The body of \<open>main\<close> inside its \<open>try\<close> (lines 131-547), for a feedback score: the steps
  up to the loaded agent, which yield the new identifier and the reviewer, then the feedback
  step and the last search.
\<close>

definition steps_1_to_7 :: "env \<Rightarrow> (string \<times> string option) io" where
  "steps_1_to_7 env =
     io_bind (configure env) (\<lambda>(signer, feedbackSigner).
     io_bind (initialize env signer feedbackSigner) (\<lambda>sdk.
     io_then (create_agent env)
    (io_bind (register_agent env sdk) (\<lambda>newAgentId.
     io_bind (verify_registration env newAgentId) (\<lambda>agentData.
     io_then (load_agent env newAgentId)
       (ret (newAgentId, feedbackSigner)))))))"

definition main_with_score :: "int \<Rightarrow> env \<Rightarrow> unit io" where
  "main_with_score score env =
     io_bind (steps_1_to_7 env) (\<lambda>(newAgentId, feedbackSigner).
     io_then (submit_feedback score env newAgentId feedbackSigner)
       (finish env newAgentId feedbackSigner))"

definition main :: "env \<Rightarrow> unit io" where
  "main env = main_with_score 5 env"

text \<open>
  The end of a run: \<open>main\<close>'s own \<open>catch\<close> reports a thrown error and exits with status 1
  (lines 548-557); a run that returns exits with status 0 (lines 563-566).
\<close>

definition run :: "unit io \<Rightarrow> event list \<times> nat" where
  "run m =
     (case m of
        (l, Inl e) \<Rightarrow> (l @ [Log (Fatal_error e)], 1)
      | (l, Inr u) \<Rightarrow> (l, 0))"

section \<open>The basic test suite (src/unnamed/part_001)\<close>

text \<open>A read test of the suite: a call in its own \<open>try\<close>, reported either way.\<close>

definition read_test :: "call \<Rightarrow> 'a outcome \<Rightarrow> ('a \<Rightarrow> message) \<Rightarrow> unit io" where
  "read_test c out report =
     try_catch (io_bind (awaited c out) (\<lambda>r. logged (report r))) (\<lambda>e. logged (Step_failed e))"

text \<open>
  Lines 17-24: the signer is created only when a private key is given; without one the
  script says that it runs in read-only mode.
\<close>

definition optional_signer :: "env \<Rightarrow> string option io" where
  "optional_signer env =
     (case configured (PRIVATE_KEY env) of
        Some key \<Rightarrow>
          io_bind (awaited (New_Wallet key) (wallet env key)) (\<lambda>address.
          io_then (logged Signer_created) (ret (Some address)))
      | None \<Rightarrow> io_then (logged Read_only_notice) (ret None))"

text \<open>
  Lines 26-204: the SDK and the tests. The write operations are behind
  \<open>!sdk.isReadOnly\<close>, and \<open>prepareFeedback\<close> there is outside any inner \<open>try\<close>.
\<close>

definition test_suite :: "env \<Rightarrow> string option \<Rightarrow> unit io" where
  "test_suite env signer =
    (let sdk = FluidSDK \<lparr> cfg_signer = signer, cfg_ipfs = None, cfg_pinataJwt = None \<rparr> in
     io_then (logged Sdk_initialized)
    (io_bind (awaited ChainId (chainId env)) (\<lambda>chain.
     io_then (logged (Read_only_mode (isReadOnly sdk)))
    (io_bind (awaited Registries (registries env)) (\<lambda>regs.
     io_bind (awaited CreateAgent (createAgent env)) (\<lambda>agent.
     io_then (logged Agent_created)
    (io_then
       (read_test SearchAgents (searchAgents env 0) (\<lambda>items. Agents_found (length items)))
    (let test_id = configured (TEST_AGENT_ID env) in
     io_then
       (case test_id of
          Some agentId \<Rightarrow>
            read_test (GetAgent agentId) (getAgent env agentId 0) (\<lambda>a. Agent_found_in_subgraph)
        | None \<Rightarrow> logged No_test_agent_id)
    (io_then
       (case test_id of
          Some agentId \<Rightarrow>
            read_test (LoadAgent agentId) (loadAgent env agentId) (\<lambda>a. Agent_loaded)
        | None \<Rightarrow> logged No_test_agent_id)
    (io_then
       (read_test SearchAgentsByReputation (searchAgentsByReputation env)
          (\<lambda>items. Agents_found (length items)))
    (io_then
       (case test_id of
          Some agentId \<Rightarrow>
            read_test (SearchFeedback agentId) (searchFeedback env agentId)
              (\<lambda>feedbacks. Feedbacks_found (length feedbacks))
        | None \<Rightarrow> logged No_test_agent_id)
    (io_then
       (case test_id of
          Some agentId \<Rightarrow>
            read_test (GetReputationSummary agentId) (getReputationSummary env agentId)
              (\<lambda>summary. Reputation_summary)
        | None \<Rightarrow> logged No_test_agent_id)
    (io_then
       (if \<not> isReadOnly sdk then
          io_then
            (case test_id of
               Some agentId \<Rightarrow>
                 io_bind (awaited (PrepareFeedback agentId 5) (prepareFeedback env agentId 5))
                   (\<lambda>feedbackFile. logged Feedback_prepared)
             | None \<Rightarrow> logged No_test_agent_id)
            (logged Skipping_write_transactions)
        else ret ())
       (logged Completed))))))))))))))"

text \<open>The body of \<open>main\<close> inside its \<open>try\<close> (lines 9-205).\<close>

definition indextest_main :: "env \<Rightarrow> unit io" where
  "indextest_main env = io_bind (optional_signer env) (test_suite env)"

section \<open>The full-flow script without MCP (src/unnamed/part_003, second script, lines 439-530)\<close>

text \<open>
  Lines 476-493: the owner's own address is the reviewer here; the index is computed the
  same way.
\<close>

definition retrieve_feedback :: "env \<Rightarrow> string \<Rightarrow> string \<Rightarrow> feedback \<Rightarrow> unit io" where
  "retrieve_feedback env newAgentId signer fb =
     (let idx = feedbackIndex (fb_id fb) in
      try_catch
        (io_bind (awaited (GetFeedback newAgentId signer idx)
                    (getFeedback env newAgentId signer idx)) (\<lambda>retrievedFeedback.
         logged Feedback_retrieved))
        (\<lambda>e. logged (Error_retrieving_feedback e)))"

text \<open>
  Lines 439-530: the feedback block of this script. The SDK's own signer submits; after a
  wait of 5 seconds the feedback is retrieved by the index above, then searched and
  summarised, each query in its own \<open>try\<close>. The tag filters of the search and of the
  summary only reach the SDK and are left out.
\<close>

definition fullflow_feedback :: "env \<Rightarrow> string \<Rightarrow> string \<Rightarrow> unit io" where
  "fullflow_feedback env newAgentId signer =
     try_catch
       (io_bind (awaited (PrepareFeedback newAgentId 5)
                   (prepareFeedback env newAgentId 5)) (\<lambda>feedbackFile.
        io_then (logged Feedback_prepared)
       (io_bind (awaited (GiveFeedback newAgentId signer)
                   (giveFeedback env newAgentId feedbackFile signer)) (\<lambda>fb.
        io_then (logged Feedback_submitted)
       (io_then (emit (Sleep 5000))
       (io_then (retrieve_feedback env newAgentId signer fb)
       (io_then
          (read_test (SearchFeedback newAgentId) (searchFeedback env newAgentId)
             (\<lambda>feedbacks. Feedbacks_found (length feedbacks)))
          (read_test (GetReputationSummary newAgentId) (getReputationSummary env newAgentId)
             (\<lambda>summary. Reputation_summary)))))))))
       (\<lambda>e. logged (Error_in_feedback_flow e))"

section \<open>Environments on which the scripts are run\<close>

text \<open>
  A run in which every call succeeds: both keys and the pinning credential are set, the
  MCP server lists one capability of each kind, the new agent is indexed at the first
  lookup.
\<close>

definition sample_env :: env where
  "sample_env =
     \<lparr> RPC_URL = Some ''https://rpc.example'',
       PRIVATE_KEY = Some ''k1'',
       FEEDBACK_PRIVATE_KEY = Some ''k2'',
       PINATA_JWT = Some ''jwt'',
       TEST_AGENT_ID = None,
       wallet = (\<lambda>key. Returns (''0x'' @ key)),
       fetch_info = Returns \<lparr> status = 200, body = Returns (Obj []) \<rparr>,
       fetch_mcp = (\<lambda>kind. Returns \<lparr> status = 200, body = Returns
          (Obj [(''result'', Obj [(list_field kind,
             Arr [Obj [(''name'', Str ''status''), (''uri'', Str ''fluidsdk://status'')]])])]) \<rparr>),
       fetch_ipfs = (\<lambda>cid. Returns \<lparr> status = 200, body = Returns (Obj []) \<rparr>),
       chainId = Returns 11155111,
       getBalance = (\<lambda>address. Returns 1000),
       registries = Returns [(''IDENTITY'', ''0x1'')],
       searchAgents = (\<lambda>n. Returns []),
       createAgent = Returns (),
       setMCP = Returns (),
       setMcpCapabilities = Returns (),
       setActive = Returns (),
       registerIPFS = Returns \<lparr> rf_agentId = Some ''11155111:7'', rf_agentURI = Some ''ipfs://Qm'' \<rparr>,
       getAgent = (\<lambda>agentId n. Returns (Some \<lparr> as_agentId = agentId, as_name = ''MCP Agent'' \<rparr>)),
       loadAgent = (\<lambda>agentId. Returns \<lparr> as_agentId = agentId, as_name = ''MCP Agent'' \<rparr>),
       prepare_fault = None,
       giveFeedback = (\<lambda>agentId file reviewer. Returns
          \<lparr> fb_id = Arr [Str agentId, Str reviewer, Num 0], fb_reviewer = reviewer,
            fb_score = ff_score file, fb_createdAt = 1700000000 \<rparr>),
       searchFeedback = (\<lambda>agentId. Returns []),
       getReputationSummary = (\<lambda>agentId. Returns \<lparr> rep_count = 1, rep_averageScore = 5 \<rparr>),
       getFeedback = (\<lambda>agentId reviewer idx. Returns
          \<lparr> fb_id = Arr [Str agentId, Str reviewer, idx], fb_reviewer = reviewer,
            fb_score = 5, fb_createdAt = 1700000000 \<rparr>),
       searchAgentsByReputation = Returns [] \<rparr>"

text \<open>The MCP server answers \<open>tools/list\<close> with status 500 and the other two with 200.\<close>

definition tools_500_env :: env where
  "tools_500_env =
     sample_env \<lparr> fetch_mcp := (\<lambda>kind.
        if kind = Tools
        then Returns \<lparr> status = 500, body = Throws ''SyntaxError: Unexpected token'' \<rparr>
        else fetch_mcp sample_env kind) \<rparr>"

text \<open>The MCP server lists a resource whose \<open>uri\<close> is the empty string.\<close>

definition empty_uri_env :: env where
  "empty_uri_env =
     sample_env \<lparr> fetch_mcp := (\<lambda>kind. Returns \<lparr> status = 200, body = Returns
        (Obj [(''result'', Obj [(list_field kind,
           Arr [Obj [(''uri'', Str []), (''name'', Str ''status'')]])])]) \<rparr>) \<rparr>"

text \<open>The subgraph never shows the new agent.\<close>

definition never_indexed_env :: env where
  "never_indexed_env = sample_env \<lparr> getAgent := (\<lambda>agentId n. Returns None) \<rparr>"

text \<open>The feedback search throws.\<close>

definition search_fails_env :: env where
  "search_fails_env =
     sample_env \<lparr> searchFeedback := (\<lambda>agentId. Throws ''subgraph unavailable'') \<rparr>"

text \<open>No pinning credential; an owner wallet without funds; no second key; no key at all.\<close>

definition no_ipfs_env :: env where
  "no_ipfs_env = sample_env \<lparr> PINATA_JWT := None \<rparr>"

definition empty_wallet_env :: env where
  "empty_wallet_env = sample_env \<lparr> getBalance := (\<lambda>address. Returns 0) \<rparr>"

definition single_signer_env :: env where
  "single_signer_env = sample_env \<lparr> FEEDBACK_PRIVATE_KEY := None \<rparr>"

definition no_key_env :: env where
  "no_key_env = sample_env \<lparr> PRIVATE_KEY := None \<rparr>"

text \<open>
  The MCP server lists a tool whose \<open>name\<close> is the object \<open>{"toString": 1}\<close>, which
  cannot be converted to a string.
\<close>

definition unprintable_name_env :: env where
  "unprintable_name_env =
     sample_env \<lparr> fetch_mcp := (\<lambda>kind.
        if kind = Tools
        then Returns \<lparr> status = 200, body = Returns
          (Obj [(''result'', Obj [(''tools'',
             Arr [Obj [(''name'', Obj [(''toString'', Num 1)])]])])]) \<rparr>
        else fetch_mcp sample_env kind) \<rparr>"

text \<open>The submitted feedback comes back with the index 4.\<close>

definition indexed_feedback_env :: env where
  "indexed_feedback_env =
     sample_env \<lparr> giveFeedback := (\<lambda>agentId file reviewer. Returns
        \<lparr> fb_id = Arr [Str agentId, Str reviewer, Num 4], fb_reviewer = reviewer,
          fb_score = ff_score file, fb_createdAt = 1700000000 \<rparr>) \<rparr>"

section \<open>Notions used in the statements\<close>

text \<open>The schedule of a log: its waits and its agent lookups, in order.\<close>

definition schedule :: "event list \<Rightarrow> event list" where
  "schedule l =
     filter (\<lambda>e. case e of
                    Sleep n \<Rightarrow> True
                  | Call c \<Rightarrow> (case c of GetAgent a \<Rightarrow> True | _ \<Rightarrow> False)
                  | Log m \<Rightarrow> False) l"

text \<open>
  The name of a listed capability as the specification words it: the \<open>name\<close> of a tool or
  a prompt; the \<open>uri\<close> of a resource, and its \<open>name\<close> when the \<open>uri\<close> is absent.
\<close>

definition spec_entry_name :: "capability_kind \<Rightarrow> jsval \<Rightarrow> jsval" where
  "spec_entry_name kind x =
     (if kind = Resources \<and> opt_prop x ''uri'' \<noteq> Undefined then opt_prop x ''uri''
      else opt_prop x ''name'')"

text \<open>
  The capabilities a response lists: the elements of the array under the kind's field of
  \<open>result\<close>, when the request returned with a status from 200 to 299, the body could
  be decoded and the array holds no \<open>null\<close>; nothing in every other case.
\<close>

definition listing :: "env \<Rightarrow> capability_kind \<Rightarrow> jsval list option" where
  "listing env kind =
     (case fetch_mcp env kind of
        Throws e \<Rightarrow> None
      | Returns r \<Rightarrow>
          if \<not> resp_ok r then None
          else (case body r of
                  Throws e \<Rightarrow> None
                | Returns data \<Rightarrow>
                    (case opt_prop (opt_prop data ''result'') (list_field kind) of
                       Arr items \<Rightarrow>
                         if Null \<in> set items \<or> Undefined \<in> set items then None
                         else Some items
                     | _ \<Rightarrow> None)))"

text \<open>Every event of a computation satisfies a predicate.\<close>

definition emits_only :: "(event \<Rightarrow> bool) \<Rightarrow> 'a io \<Rightarrow> bool" where
  "emits_only P m = (\<forall>e\<in>set (fst m). P e)"

text \<open>An event that is no feedback call; an event that is no on-chain write of the flow.\<close>

definition no_feedback_call :: "event \<Rightarrow> bool" where
  "no_feedback_call e =
     ((\<forall>a s. e \<noteq> Call (PrepareFeedback a s)) \<and> (\<forall>a r. e \<noteq> Call (GiveFeedback a r)))"

definition no_chain_write :: "event \<Rightarrow> bool" where
  "no_chain_write e = (e \<noteq> Call RegisterIPFS \<and> no_feedback_call e)"

section \<open>Auxiliary facts\<close>

subsection \<open>Sequencing and catching\<close>

lemma io_bind_Inl [simp]: "io_bind (l, Inl e) f = (l, Inl e)"
  by (simp add: io_bind_def)

lemma io_bind_Inr [simp]: "io_bind (l, Inr a) f = (l @ fst (f a), snd (f a))"
  by (simp add: io_bind_def split: prod.split)

lemma try_catch_Inl [simp]: "try_catch (l, Inl e) h = (l @ fst (h e), snd (h e))"
  by (simp add: try_catch_def split: prod.split)

lemma try_catch_Inr [simp]: "try_catch (l, Inr a) h = (l, Inr a)"
  by (simp add: try_catch_def)

lemmas io_defs = ret_def throw_def emit_def logged_def lift_def awaited_def io_then_def

lemma fst_io_bind: "fst (io_bind m f) = fst m @ (case snd m of Inl e \<Rightarrow> [] | Inr a \<Rightarrow> fst (f a))"
  by (cases m) (auto simp: io_bind_def split: sum.splits prod.splits)

lemma snd_io_bind: "snd (io_bind m f) = (case snd m of Inl e \<Rightarrow> Inl e | Inr a \<Rightarrow> snd (f a))"
  by (cases m) (auto simp: io_bind_def split: sum.splits prod.splits)

lemma fst_try_catch: "fst (try_catch m h) = fst m @ (case snd m of Inl e \<Rightarrow> fst (h e) | Inr a \<Rightarrow> [])"
  by (cases m) (auto simp: try_catch_def split: sum.splits prod.splits)

lemma snd_try_catch: "snd (try_catch m h) = (case snd m of Inl e \<Rightarrow> snd (h e) | Inr a \<Rightarrow> Inr a)"
  by (cases m) (auto simp: try_catch_def split: sum.splits prod.splits)

lemmas io_proj = fst_io_bind snd_io_bind fst_try_catch snd_try_catch

lemma snd_run: "snd (run m) = (case snd m of Inl e \<Rightarrow> 1 | Inr u \<Rightarrow> 0)"
  by (cases m) (simp add: run_def split: sum.splits)

subsection \<open>Events of a computation\<close>

lemma emits_only_ret: "emits_only P (ret a)"
  and emits_only_throw: "emits_only P (throw x)"
  and emits_only_lift: "emits_only P (lift out)"
  by (simp_all add: emits_only_def io_defs)

lemma emits_only_emit: "P ev \<Longrightarrow> emits_only P (emit ev)"
  and emits_only_logged: "P (Log msg) \<Longrightarrow> emits_only P (logged msg)"
  and emits_only_awaited: "P (Call c) \<Longrightarrow> emits_only P (awaited c out)"
  by (simp_all add: emits_only_def io_defs)

lemma emits_only_bind:
  "emits_only P m \<Longrightarrow> (\<And>a. emits_only P (f a)) \<Longrightarrow> emits_only P (io_bind m f)"
  by (auto simp: emits_only_def fst_io_bind split: sum.splits)

lemma emits_only_then:
  "emits_only P m \<Longrightarrow> emits_only P k \<Longrightarrow> emits_only P (io_then m k)"
  by (simp add: io_then_def emits_only_bind)

lemma emits_only_try:
  "emits_only P m \<Longrightarrow> (\<And>x. emits_only P (h x)) \<Longrightarrow> emits_only P (try_catch m h)"
  by (auto simp: emits_only_def fst_try_catch split: sum.splits)

lemmas emits_only_intros =
  emits_only_ret emits_only_throw emits_only_lift emits_only_emit emits_only_logged
  emits_only_awaited emits_only_bind emits_only_then emits_only_try

lemma emits_only_mono:
  "emits_only P m \<Longrightarrow> (\<And>e. P e \<Longrightarrow> Q e) \<Longrightarrow> emits_only Q m"
  by (auto simp: emits_only_def)

lemma emits_only_pair: "emits_only P (l, r) = (\<forall>e\<in>set l. P e)"
  by (simp add: emits_only_def)

lemma no_chain_write_simps [simp]:
  "no_chain_write (Log msg)" "no_chain_write (Sleep n)"
  "no_chain_write (Call c) = (c \<noteq> RegisterIPFS \<and> (\<forall>a s. c \<noteq> PrepareFeedback a s) \<and> (\<forall>a r. c \<noteq> GiveFeedback a r))"
  by (auto simp: no_chain_write_def no_feedback_call_def)

lemma no_feedback_call_simps [simp]:
  "no_feedback_call (Log msg)" "no_feedback_call (Sleep n)"
  "no_feedback_call (Call c) = ((\<forall>a s. c \<noteq> PrepareFeedback a s) \<and> (\<forall>a r. c \<noteq> GiveFeedback a r))"
  by (auto simp: no_feedback_call_def)

subsection \<open>The retry loop, unfolded by one round\<close>

lemma retry_lookup_step:
  "i < 3 \<Longrightarrow> retry_lookup env agentId i =
     io_then (emit (Sleep 10000))
    (io_then (logged (Retry (i + 1)))
    (io_bind (queryAgentFromSubgraph env agentId (i + 1)) (\<lambda>agentData.
       if agentData \<noteq> None then ret agentData
       else retry_lookup env agentId (i + 1))))"
  by (subst retry_lookup.simps) simp

lemma retry_lookup_done: "\<not> i < 3 \<Longrightarrow> retry_lookup env agentId i = ret None"
  by (subst retry_lookup.simps) simp

lemmas retry_lookup_unfold = retry_lookup_step retry_lookup_done

subsection \<open>No step before the feedback step calls the feedback operations\<close>

lemma configure_quiet: "emits_only no_chain_write (configure env)"
  unfolding configure_def
  by (auto intro!: emits_only_intros split: option.splits)

lemma testMCPConnectivity_quiet: "emits_only no_chain_write (testMCPConnectivity env)"
  unfolding testMCPConnectivity_def
  by (auto intro!: emits_only_intros)

lemma initialize_quiet: "emits_only no_chain_write (initialize env s fs)"
  unfolding initialize_def Let_def
  by (auto intro!: emits_only_intros testMCPConnectivity_quiet split: option.splits)

lemma fetch_capability_quiet: "emits_only no_chain_write (fetch_capability env k)"
  unfolding fetch_capability_def Let_def
  by (auto intro!: emits_only_intros)

lemma searchAgentsInSubgraph_quiet: "emits_only no_chain_write (searchAgentsInSubgraph env n)"
  unfolding searchAgentsInSubgraph_def
  by (auto intro!: emits_only_intros)

lemma create_agent_quiet: "emits_only no_chain_write (create_agent env)"
  unfolding create_agent_def fetch_mcp_capabilities_def
  by (auto intro!: emits_only_intros fetch_capability_quiet searchAgentsInSubgraph_quiet)

lemma show_ipfs_content_quiet: "emits_only no_chain_write (show_ipfs_content env cid)"
  unfolding show_ipfs_content_def Let_def
  by (auto intro!: emits_only_intros split: option.splits)

lemma register_agent_quiet: "emits_only no_feedback_call (register_agent env sdk)"
  unfolding register_agent_def Let_def
  by (auto intro!: emits_only_intros emits_only_mono [OF show_ipfs_content_quiet]
      simp: no_chain_write_def split: option.splits)

lemma queryAgentFromSubgraph_quiet: "emits_only no_chain_write (queryAgentFromSubgraph env a n)"
  unfolding queryAgentFromSubgraph_def
  by (auto intro!: emits_only_intros split: option.splits)

lemma retry_lookup_quiet: "emits_only no_chain_write (retry_lookup env a i)"
proof (induction "3 - i" arbitrary: i)
  case 0
  then show ?case by (simp add: retry_lookup_done emits_only_ret)
next
  case (Suc n)
  then have "i < 3" and "n = 3 - (i + 1)" by simp_all
  then show ?case using Suc(1) [of "i + 1"]
    by (auto simp: retry_lookup_step intro!: emits_only_intros queryAgentFromSubgraph_quiet)
qed

lemma verify_registration_quiet: "emits_only no_chain_write (verify_registration env a)"
  unfolding verify_registration_def
  by (auto intro!: emits_only_intros queryAgentFromSubgraph_quiet retry_lookup_quiet)

lemma load_agent_quiet: "emits_only no_chain_write (load_agent env a)"
  unfolding load_agent_def
  by (auto intro!: emits_only_intros)

lemma finish_quiet: "emits_only no_chain_write (finish env a fs)"
  unfolding finish_def
  by (auto intro!: emits_only_intros searchAgentsInSubgraph_quiet)

lemma steps_1_to_7_quiet: "emits_only no_feedback_call (steps_1_to_7 env)"
  unfolding steps_1_to_7_def
  by (auto intro!: emits_only_intros register_agent_quiet
        emits_only_mono [OF configure_quiet] emits_only_mono [OF initialize_quiet]
        emits_only_mono [OF create_agent_quiet] emits_only_mono [OF verify_registration_quiet]
        emits_only_mono [OF load_agent_quiet]
      simp: no_chain_write_def)

subsection \<open>What the steps return\<close>

lemma configure_result:
  "snd (configure env) = Inr (s, fs) \<Longrightarrow>
   (\<exists>key. configured (PRIVATE_KEY env) = Some key \<and> wallet env key = Returns s) \<and>
   (fs = None \<longleftrightarrow> configured (FEEDBACK_PRIVATE_KEY env) = None) \<and>
   (fs = None \<longrightarrow> Log Warn_no_feedback_key \<in> set (fst (configure env)))"
  unfolding configure_def
  by (auto simp: io_defs split: option.splits outcome.splits)

lemma configure_without_key:
  "configured (PRIVATE_KEY env) = None \<Longrightarrow>
   configure env =
     ([], Inl (if configured (RPC_URL env) = None then ''RPC_URL not set in .env file''
               else ''PRIVATE_KEY not set in .env file - write operations require a signer''))"
  unfolding configure_def
  by (auto simp: io_defs split: option.splits)

lemma testMCPConnectivity_returns: "\<exists>b. snd (testMCPConnectivity env) = Inr b"
  unfolding testMCPConnectivity_def
  by (auto simp: io_proj io_defs split: outcome.splits sum.splits)

lemma initialize_balance:
  "getBalance env s = Returns 0 \<Longrightarrow> \<exists>e. snd (initialize env s fs) = Inl e"
  using testMCPConnectivity_returns [of env]
  unfolding initialize_def Let_def
  by (auto simp: io_proj io_defs split: outcome.splits sum.splits option.splits)

lemma initialize_ipfs:
  "snd (initialize env s fs) = Inr sdk \<Longrightarrow>
   ipfsClient sdk = (configured (PINATA_JWT env) \<noteq> None)"
  using testMCPConnectivity_returns [of env]
  unfolding initialize_def Let_def
  by (auto simp: io_proj io_defs FluidSDK_def split: outcome.splits sum.splits option.splits if_splits)

lemma register_guard:
  "\<not> ipfsClient sdk \<Longrightarrow>
   register_agent env sdk = ([], Inl ''IPFS client not configured - cannot register agent'')"
  by (simp add: register_agent_def throw_def)

lemma searchAgentsInSubgraph_returns: "\<exists>items. snd (searchAgentsInSubgraph env n) = Inr items"
  unfolding searchAgentsInSubgraph_def
  by (simp add: io_proj io_defs split: outcome.splits sum.splits)

lemma finish_returns: "snd (finish env a fs) = Inr ()"
  using searchAgentsInSubgraph_returns [of env 1]
  unfolding finish_def
  by (auto simp: io_proj io_defs split: outcome.splits sum.splits)

lemma queryFeedbackFromSubgraph_returns: "snd (queryFeedbackFromSubgraph env a) = Inr ()"
  unfolding queryFeedbackFromSubgraph_def
  by (simp add: io_proj io_defs split: outcome.splits sum.splits)

lemma retrieve_specific_feedback_returns: "snd (retrieve_specific_feedback env a r fb) = Inr ()"
  unfolding retrieve_specific_feedback_def Let_def
  by (simp add: io_proj io_defs split: outcome.splits sum.splits)

lemma submit_feedback_returns: "snd (submit_feedback score env a fs) = Inr ()"
  unfolding submit_feedback_def
  by (simp add: io_proj io_defs queryFeedbackFromSubgraph_returns
        retrieve_specific_feedback_returns split: outcome.splits sum.splits option.splits)

lemma steps_reviewer:
  assumes "snd (steps_1_to_7 env) = Inr (a, fs)"
  shows "(fs = None \<longleftrightarrow> configured (FEEDBACK_PRIVATE_KEY env) = None) \<and>
         (fs = None \<longrightarrow> Log Warn_no_feedback_key \<in> set (fst (steps_1_to_7 env)))"
proof -
  obtain lc rc where c: "configure env = (lc, rc)" by (cases "configure env")
  show ?thesis
  proof (cases rc)
    case (Inl e)
    then show ?thesis using assms by (simp add: steps_1_to_7_def c)
  next
    case (Inr p)
    obtain s fs' where p: "p = (s, fs')" by (cases p)
    have "fs' = fs"
      using assms Inr p
      by (auto simp: steps_1_to_7_def c io_proj io_defs split: sum.splits)
    moreover have "set lc \<subseteq> set (fst (steps_1_to_7 env))"
      by (simp add: steps_1_to_7_def c fst_io_bind)
    ultimately show ?thesis
      using configure_result [of env s fs] c Inr p by auto
  qed
qed

lemma guarded_steps_fail:
  assumes "configured (PINATA_JWT env) = None \<or>
           (\<exists>key signer. configured (PRIVATE_KEY env) = Some key \<and> wallet env key = Returns signer \<and>
              getBalance env signer = Returns 0)"
  shows "\<exists>l e. steps_1_to_7 env = (l, Inl e) \<and> (\<forall>ev\<in>set l. no_chain_write ev)"
proof -
  obtain lc rc where c: "configure env = (lc, rc)" by (cases "configure env")
  have qc: "\<forall>ev\<in>set lc. no_chain_write ev"
    using configure_quiet [of env] by (simp add: c emits_only_pair)
  show ?thesis
  proof (cases rc)
    case (Inl e)
    then have "steps_1_to_7 env = (lc, Inl e)" by (simp add: steps_1_to_7_def c)
    with qc show ?thesis by blast
  next
    case (Inr p)
    obtain s fs where p: "p = (s, fs)" by (cases p)
    obtain li ri where i: "initialize env s fs = (li, ri)" by (cases "initialize env s fs")
    have qi: "\<forall>ev\<in>set li. no_chain_write ev"
      using initialize_quiet [of env s fs] by (simp add: i emits_only_pair)
    show ?thesis
    proof (cases ri)
      case (Inl e)
      then have "steps_1_to_7 env = (lc @ li, Inl e)"
        using Inr p by (simp add: steps_1_to_7_def c i)
      with qc qi show ?thesis by auto
    next
      case sdk: (Inr sdk)
      have key: "\<exists>key. configured (PRIVATE_KEY env) = Some key \<and> wallet env key = Returns s"
        using configure_result [of env s fs] c Inr p by simp
      have "getBalance env s \<noteq> Returns 0"
        using initialize_balance [of env s fs] i sdk by auto
      with assms key have "configured (PINATA_JWT env) = None" by auto
      then have guard: "\<not> ipfsClient sdk"
        using initialize_ipfs [of env s fs sdk] i sdk by simp
      obtain la ra where a: "create_agent env = (la, ra)" by (cases "create_agent env")
      have qa: "\<forall>ev\<in>set la. no_chain_write ev"
        using create_agent_quiet [of env] by (simp add: a emits_only_pair)
      show ?thesis
      proof (cases ra)
        case (Inl e)
        then have "steps_1_to_7 env = (lc @ li @ la, Inl e)"
          using Inr p sdk by (simp add: steps_1_to_7_def c i a io_then_def)
        with qc qi qa show ?thesis by auto
      next
        case (Inr u)
        then have "steps_1_to_7 env =
            (lc @ li @ la, Inl ''IPFS client not configured - cannot register agent'')"
          using \<open>rc = Inr p\<close> p sdk register_guard [OF guard, of env]
          by (simp add: steps_1_to_7_def c i a io_then_def)
        with qc qi qa show ?thesis by auto
      qed
    qed
  qed
qed

subsection \<open>Evaluation of a whole run\<close>

lemmas main_defs =
  main_def main_with_score_def steps_1_to_7_def configure_def initialize_def create_agent_def
  register_agent_def verify_registration_def load_agent_def submit_feedback_def finish_def
  testMCPConnectivity_def queryAgentFromSubgraph_def searchAgentsInSubgraph_def
  queryFeedbackFromSubgraph_def fetch_mcp_capabilities_def fetch_capability_def
  show_ipfs_content_def retrieve_specific_feedback_def prepareFeedback_def FluidSDK_def
  configured_def run_def toISOString_def feedbackIndex_def find_mcp_endpoint_def js_map_def
  to_string_def js_join_def method_join_def js_or_def resp_ok_def fullflow_feedback_def
  retrieve_feedback_def read_test_def io_defs

lemma sample_steps: "snd (steps_1_to_7 sample_env) = Inr (''11155111:7'', Some ''0xk2'')"
  by (simp add: sample_env_def main_defs)

lemma single_signer_steps:
  "snd (steps_1_to_7 single_signer_env) = Inr (''11155111:7'', None)"
  by (simp add: single_signer_env_def sample_env_def main_defs)

section \<open>Properties\<close>

subsection \<open>Polling the subgraph for the new agent\<close>

lemma schedule_append: "schedule (a @ b) = schedule a @ schedule b"
  by (simp add: schedule_def)

lemma query_shape:
  "\<exists>m r. queryAgentFromSubgraph env agentId n = ([Call (GetAgent agentId), Log m], Inr r) \<and>
     (case r of
        None \<Rightarrow> \<forall>a. getAgent env agentId n \<noteq> Returns (Some a)
      | Some a \<Rightarrow> getAgent env agentId n = Returns (Some a))"
  unfolding queryAgentFromSubgraph_def
  by (cases "getAgent env agentId n") (auto simp: io_defs split: option.splits)

lemma retry_lookup_schedule:
  "i \<le> 3 \<Longrightarrow>
   \<exists>k r. k \<le> 3 - i \<and>
     schedule (fst (retry_lookup env agentId i)) =
       concat (replicate k [Sleep 10000, Call (GetAgent agentId)]) \<and>
     snd (retry_lookup env agentId i) = Inr r \<and>
     (case r of
        None \<Rightarrow> k = 3 - i \<and> (\<forall>j<k. \<forall>a. getAgent env agentId (i + 1 + j) \<noteq> Returns (Some a))
      | Some a \<Rightarrow> 1 \<le> k \<and>
          (\<forall>j<k - 1. \<forall>b. getAgent env agentId (i + 1 + j) \<noteq> Returns (Some b)) \<and>
          getAgent env agentId (i + k) = Returns (Some a))"
proof (induction "3 - i" arbitrary: i)
  case 0
  then have "\<not> i < 3" by simp
  then have "retry_lookup env agentId i = ret None"
    by (subst retry_lookup.simps) simp
  then show ?case using 0 by (simp add: ret_def schedule_def)
next
  case (Suc n)
  then have lt: "i < 3" and le: "i + 1 \<le> 3" and n: "n = 3 - (i + 1)" by simp_all
  obtain m r0 where q: "queryAgentFromSubgraph env agentId (i + 1) = ([Call (GetAgent agentId), Log m], Inr r0)"
    and r0: "case r0 of
        None \<Rightarrow> \<forall>a. getAgent env agentId (i + 1) \<noteq> Returns (Some a)
      | Some a \<Rightarrow> getAgent env agentId (i + 1) = Returns (Some a)"
    using query_shape by blast
  show ?case
  proof (cases r0)
    case (Some a)
    then have "retry_lookup env agentId i =
        ([Sleep 10000, Log (Retry (i + 1)), Call (GetAgent agentId), Log m], Inr (Some a))"
      using lt q by (subst retry_lookup.simps) (simp add: io_defs)
    moreover have "getAgent env agentId (i + 1) = Returns (Some a)" using r0 Some by simp
    ultimately show ?thesis using lt
      by (intro exI [of _ 1] exI [of _ "Some a"]) (simp add: schedule_def)
  next
    case None
    obtain k r where k: "k \<le> 3 - (i + 1)"
      and sch: "schedule (fst (retry_lookup env agentId (i + 1))) =
                  concat (replicate k [Sleep 10000, Call (GetAgent agentId)])"
      and res: "snd (retry_lookup env agentId (i + 1)) = Inr r"
      and rest: "case r of
          None \<Rightarrow> k = 3 - (i + 1) \<and> (\<forall>j<k. \<forall>a. getAgent env agentId (i + 1 + 1 + j) \<noteq> Returns (Some a))
        | Some a \<Rightarrow> 1 \<le> k \<and>
            (\<forall>j<k - 1. \<forall>b. getAgent env agentId (i + 1 + 1 + j) \<noteq> Returns (Some b)) \<and>
            getAgent env agentId (i + 1 + k) = Returns (Some a)"
      using Suc(1) [OF n le] by blast
    have unfold: "retry_lookup env agentId i =
        ([Sleep 10000, Log (Retry (i + 1)), Call (GetAgent agentId), Log m]
           @ fst (retry_lookup env agentId (i + 1)), snd (retry_lookup env agentId (i + 1)))"
      using lt q None by (subst retry_lookup.simps) (simp add: io_defs)
    have pre: "schedule [Sleep 10000, Log (Retry (i + 1)), Call (GetAgent agentId), Log m] =
                 [Sleep 10000, Call (GetAgent agentId)]"
      by (simp add: schedule_def)
    have sched: "schedule (fst (retry_lookup env agentId i)) =
                   concat (replicate (Suc k) [Sleep 10000, Call (GetAgent agentId)])"
      unfolding unfold fst_conv schedule_append pre sch by simp
    have result: "snd (retry_lookup env agentId i) = Inr r"
      unfolding unfold using res by simp
    have absent: "\<forall>a. getAgent env agentId (i + 1) \<noteq> Returns (Some a)" using r0 None by simp
    have bound: "Suc k \<le> 3 - i" using k lt by simp
    show ?thesis
    proof (cases r)
      case None
      with rest have kk: "k = 3 - (i + 1)"
        and ab: "\<forall>j<k. \<forall>a. getAgent env agentId (i + 1 + 1 + j) \<noteq> Returns (Some a)" by simp_all
      have "\<forall>j<Suc k. \<forall>b. getAgent env agentId (i + 1 + j) \<noteq> Returns (Some b)"
      proof (intro allI impI)
        fix j b assume "j < Suc k"
        show "getAgent env agentId (i + 1 + j) \<noteq> Returns (Some b)"
        proof (cases j)
          case 0 then show ?thesis using absent by simp
        next
          case (Suc j') with \<open>j < Suc k\<close> have "j' < k" by simp
          with ab Suc show ?thesis by simp
        qed
      qed
      moreover have "Suc k = 3 - i" using kk lt by simp
      ultimately show ?thesis using sched result bound None
        by (intro exI [of _ "Suc k"] exI [of _ r]) simp
    next
      case (Some a)
      with rest have k1: "1 \<le> k" and ab: "\<forall>j<k - 1. \<forall>b. getAgent env agentId (i + 1 + 1 + j) \<noteq> Returns (Some b)"
        and fd: "getAgent env agentId (i + 1 + k) = Returns (Some a)" by simp_all
      have "\<forall>j<Suc k - 1. \<forall>b. getAgent env agentId (i + 1 + j) \<noteq> Returns (Some b)"
      proof (intro allI impI)
        fix j b assume "j < Suc k - 1"
        show "getAgent env agentId (i + 1 + j) \<noteq> Returns (Some b)"
        proof (cases j)
          case 0 then show ?thesis using absent by simp
        next
          case (Suc j') with \<open>j < Suc k - 1\<close> have "j' < k - 1" by simp
          with ab Suc show ?thesis by simp
        qed
      qed
      moreover have "getAgent env agentId (i + Suc k) = Returns (Some a)" using fd by simp
      ultimately show ?thesis using sched result bound Some
        by (intro exI [of _ "Suc k"] exI [of _ r]) simp
    qed
  qed
qed

lemma never_indexed_run:
  "verify_registration never_indexed_env ''11155111:7'' =
     ([Log Waiting_for_indexing, Sleep 10000, Call (GetAgent ''11155111:7''),
       Log Agent_not_found_in_subgraph, Log Not_found_yet,
       Sleep 10000, Log (Retry 1), Call (GetAgent ''11155111:7''), Log Agent_not_found_in_subgraph,
       Sleep 10000, Log (Retry 2), Call (GetAgent ''11155111:7''), Log Agent_not_found_in_subgraph,
       Sleep 10000, Log (Retry 3), Call (GetAgent ''11155111:7''), Log Agent_not_found_in_subgraph,
       Log Warn_not_indexed_continuing], Inr None)"
  by (simp add: verify_registration_def queryAgentFromSubgraph_def
        retry_lookup_unfold
        never_indexed_env_def sample_env_def io_defs)

text \<open>
  Claim C1, as the code has it. After the registration the harness first waits 10 seconds
  and then looks the new agent up; while the agent is absent (a lookup that throws counts
  as absent) it retries, at most 3 times, each retry after a further wait of 10 seconds.
  So a run makes \<open>k\<close> lookups with \<open>1 \<le> k \<le> 4\<close>, each directly preceded by a wait of
  10000 ms and with no other wait or lookup; all lookups before the last found nothing.
  The verification never throws: when the agent is still absent after the fourth lookup
  the warning is logged and the run proceeds; otherwise the last lookup returned the agent.
\<close>

theorem registration_polling:
  "\<exists>k r. 1 \<le> k \<and> k \<le> 4 \<and>
     schedule (fst (verify_registration env agentId)) =
       concat (replicate k [Sleep 10000, Call (GetAgent agentId)]) \<and>
     snd (verify_registration env agentId) = Inr r \<and>
     (\<forall>j<k - 1. \<forall>a. getAgent env agentId j \<noteq> Returns (Some a)) \<and>
     (case r of
        None \<Rightarrow> k = 4 \<and> (\<forall>a. getAgent env agentId 3 \<noteq> Returns (Some a)) \<and>
          Log Warn_not_indexed_continuing \<in> set (fst (verify_registration env agentId))
      | Some a \<Rightarrow> getAgent env agentId (k - 1) = Returns (Some a))"
proof -
  obtain m r0 where q: "queryAgentFromSubgraph env agentId 0 = ([Call (GetAgent agentId), Log m], Inr r0)"
    and r0: "case r0 of
        None \<Rightarrow> \<forall>a. getAgent env agentId 0 \<noteq> Returns (Some a)
      | Some a \<Rightarrow> getAgent env agentId 0 = Returns (Some a)"
    using query_shape by blast
  show ?thesis
  proof (cases r0)
    case (Some a)
    then have "verify_registration env agentId =
        ([Log Waiting_for_indexing, Sleep 10000, Call (GetAgent agentId), Log m, Log Agent_verified],
         Inr (Some a))"
      using q by (simp add: verify_registration_def io_defs)
    moreover have "getAgent env agentId 0 = Returns (Some a)" using r0 Some by simp
    ultimately show ?thesis
      by (intro exI [of _ 1] exI [of _ "Some a"]) (simp add: schedule_def)
  next
    case None
    obtain k r where k0: "k \<le> 3 - 0"
      and sch: "schedule (fst (retry_lookup env agentId 0)) =
                  concat (replicate k [Sleep 10000, Call (GetAgent agentId)])"
      and res: "snd (retry_lookup env agentId 0) = Inr r"
      and rest0: "case r of
          None \<Rightarrow> k = 3 - 0 \<and> (\<forall>j<k. \<forall>a. getAgent env agentId (0 + 1 + j) \<noteq> Returns (Some a))
        | Some a \<Rightarrow> 1 \<le> k \<and>
            (\<forall>j<k - 1. \<forall>b. getAgent env agentId (0 + 1 + j) \<noteq> Returns (Some b)) \<and>
            getAgent env agentId (0 + k) = Returns (Some a)"
      using retry_lookup_schedule [of 0 env agentId] by blast
    have k: "k \<le> 3" using k0 by simp
    have rest: "case r of
          None \<Rightarrow> k = 3 \<and> (\<forall>j<k. \<forall>a. getAgent env agentId (Suc j) \<noteq> Returns (Some a))
        | Some a \<Rightarrow> 1 \<le> k \<and>
            (\<forall>j<k - 1. \<forall>b. getAgent env agentId (Suc j) \<noteq> Returns (Some b)) \<and>
            getAgent env agentId k = Returns (Some a)"
      using rest0 by (simp split: option.splits)
    have absent: "\<forall>a. getAgent env agentId 0 \<noteq> Returns (Some a)" using r0 None by simp
    have unfold: "verify_registration env agentId =
        ([Log Waiting_for_indexing, Sleep 10000, Call (GetAgent agentId), Log m, Log Not_found_yet]
           @ fst (retry_lookup env agentId 0)
           @ [Log (if r = None then Warn_not_indexed_continuing else Agent_verified)], Inr r)"
      using q None res
      by (cases "retry_lookup env agentId 0") (simp add: verify_registration_def io_defs)
    have pre: "schedule [Log Waiting_for_indexing, Sleep 10000, Call (GetAgent agentId), Log m, Log Not_found_yet] =
                 [Sleep 10000, Call (GetAgent agentId)]"
      and post: "\<And>x. schedule [Log x] = []"
      by (simp_all add: schedule_def)
    have sched: "schedule (fst (verify_registration env agentId)) =
                   concat (replicate (Suc k) [Sleep 10000, Call (GetAgent agentId)])"
      unfolding unfold fst_conv schedule_append pre sch post by simp
    have result: "snd (verify_registration env agentId) = Inr r"
      unfolding unfold by simp
    show ?thesis
    proof (cases r)
      case None
      with rest have kk: "k = 3"
        and ab: "\<forall>j<k. \<forall>a. getAgent env agentId (Suc j) \<noteq> Returns (Some a)" by simp_all
      have "\<forall>j<Suc k - 1. \<forall>b. getAgent env agentId j \<noteq> Returns (Some b)"
      proof (intro allI impI)
        fix j b assume "j < Suc k - 1"
        show "getAgent env agentId j \<noteq> Returns (Some b)"
        proof (cases j)
          case 0 then show ?thesis using absent by simp
        next
          case (Suc j') with \<open>j < Suc k - 1\<close> have "j' < k" by simp
          with ab Suc show ?thesis by simp
        qed
      qed
      moreover have "\<forall>a. getAgent env agentId 3 \<noteq> Returns (Some a)"
        using ab kk by (simp add: eval_nat_numeral)
      moreover have "Log Warn_not_indexed_continuing \<in> set (fst (verify_registration env agentId))"
        unfolding unfold using None by simp
      ultimately show ?thesis using sched result kk None
        by (intro exI [of _ "Suc k"] exI [of _ r]) simp
    next
      case (Some a)
      with rest have k1: "1 \<le> k"
        and ab: "\<forall>j<k - 1. \<forall>b. getAgent env agentId (Suc j) \<noteq> Returns (Some b)"
        and fd: "getAgent env agentId k = Returns (Some a)" by simp_all
      have "\<forall>j<Suc k - 1. \<forall>b. getAgent env agentId j \<noteq> Returns (Some b)"
      proof (intro allI impI)
        fix j b assume "j < Suc k - 1"
        show "getAgent env agentId j \<noteq> Returns (Some b)"
        proof (cases j)
          case 0 then show ?thesis using absent by simp
        next
          case (Suc j') with \<open>j < Suc k - 1\<close> have "j' < k - 1" by simp
          with ab Suc show ?thesis by simp
        qed
      qed
      then show ?thesis using sched result k fd Some
        by (intro exI [of _ "Suc k"] exI [of _ r]) simp
    qed
  qed
qed

text \<open>When the subgraph never shows the agent: four waits, four lookups, the warning.\<close>

theorem registration_polling_witness:
  "schedule (fst (verify_registration never_indexed_env ''11155111:7'')) =
     concat (replicate 4 [Sleep 10000, Call (GetAgent ''11155111:7'')]) \<and>
   snd (verify_registration never_indexed_env ''11155111:7'') = Inr None \<and>
   Log Warn_not_indexed_continuing \<in> set (fst (verify_registration never_indexed_env ''11155111:7''))"
  using registration_polling [of never_indexed_env "''11155111:7''"]
  unfolding never_indexed_run
  by (simp add: schedule_def eval_nat_numeral)

text \<open>
  Claim C1 as stated speaks of one immediate query. In a run that finds the agent at
  once, the only lookup comes after a wait of 10 seconds (line 396).
\<close>

theorem first_lookup_waits_counterexample:
  "schedule (fst (verify_registration sample_env ''11155111:7'')) =
     [Sleep 10000, Call (GetAgent ''11155111:7'')]"
  by (simp add: verify_registration_def queryAgentFromSubgraph_def sample_env_def io_defs
        schedule_def)

subsection \<open>The feedback step without a second signer\<close>

text \<open>
  Claim C2, as the code has it. When FEEDBACK_PRIVATE_KEY is not configured, no run
  prepares or submits feedback; a run whose steps 1 to 7 succeed has warned about the
  missing key, reports that feedback is skipped, and ends with status 0: the missing
  second signer is reported and skipped, not fatal.
\<close>

theorem missing_reviewer_skips_feedback:
  assumes "configured (FEEDBACK_PRIVATE_KEY env) = None"
  shows "(\<forall>a s. Call (PrepareFeedback a s) \<notin> set (fst (run (main env)))) \<and>
         (\<forall>a r. Call (GiveFeedback a r) \<notin> set (fst (run (main env)))) \<and>
         (\<forall>a fs. snd (steps_1_to_7 env) = Inr (a, fs) \<longrightarrow>
            snd (run (main env)) = 0 \<and>
            Log Warn_no_feedback_key \<in> set (fst (run (main env))) \<and>
            Log Skipping_feedback \<in> set (fst (run (main env))))"
proof -
  obtain l r where s: "steps_1_to_7 env = (l, r)" by (cases "steps_1_to_7 env")
  have ql: "\<forall>ev\<in>set l. no_feedback_call ev"
    using steps_1_to_7_quiet [of env] by (simp add: s emits_only_pair)
  show ?thesis
  proof (cases r)
    case (Inl e)
    then have "run (main env) = (l @ [Log (Fatal_error e)], 1)"
      by (simp add: main_def main_with_score_def s run_def)
    with ql Inl s show ?thesis by (auto simp: no_feedback_call_def)
  next
    case (Inr p)
    obtain a fs where p: "p = (a, fs)" by (cases p)
    have fs: "fs = None" and warn: "Log Warn_no_feedback_key \<in> set l"
      using steps_reviewer [of env a fs] assms s Inr p by simp_all
    obtain lf where f: "finish env a None = (lf, Inr ())"
      using finish_returns [of env a None] by (cases "finish env a None") simp
    have qf: "\<forall>ev\<in>set lf. no_feedback_call ev"
      using finish_quiet [of env a None] by (simp add: f emits_only_pair no_chain_write_def)
    have "run (main env) = (l @ Log Skipping_feedback # lf, 0)"
      using Inr p fs f
      by (simp add: main_def main_with_score_def s run_def submit_feedback_def io_defs)
    with ql qf warn Inr p s show ?thesis by (auto simp: no_feedback_call_def)
  qed
qed

theorem missing_reviewer_skips_feedback_witness:
  "configured (FEEDBACK_PRIVATE_KEY single_signer_env) = None \<and>
   snd (steps_1_to_7 single_signer_env) = Inr (''11155111:7'', None) \<and>
   snd (run (main single_signer_env)) = 0 \<and>
   Log Skipping_feedback \<in> set (fst (run (main single_signer_env))) \<and>
   Call (GiveFeedback ''11155111:7'' ''0xk1'') \<notin> set (fst (run (main single_signer_env)))"
proof -
  have a: "configured (FEEDBACK_PRIVATE_KEY single_signer_env) = None"
    by (simp add: single_signer_env_def sample_env_def configured_def)
  show ?thesis
    using a single_signer_steps missing_reviewer_skips_feedback [OF a] by simp
qed

text \<open>
  Claim C2 as stated says that the run fails fatally. With one signer and everything else
  in order the run ends with status 0.
\<close>

theorem single_signer_counterexample:
  "configured (FEEDBACK_PRIVATE_KEY single_signer_env) = None \<and>
   snd (run (main single_signer_env)) = 0"
  by (simp add: single_signer_env_def sample_env_def main_defs)

subsection \<open>The three read queries after a feedback submission\<close>

text \<open>
  Claim C3. When the feedback search throws, \<open>queryFeedbackFromSubgraph\<close> reports the
  failure and never asks for the reputation summary: both queries are in one \<open>try\<close>
  (lines 105-125). The direct retrieval, in its own \<open>try\<close>, still runs.
\<close>

theorem search_failure_suppresses_summary:
  "fst (submit_feedback 5 search_fails_env ''11155111:7'' (Some ''0xk2'')) =
     [Call (PrepareFeedback ''11155111:7'' 5), Log Feedback_prepared,
      Call (GiveFeedback ''11155111:7'' ''0xk2''), Log Feedback_submitted, Sleep 10000,
      Call (SearchFeedback ''11155111:7''), Log (Feedback_query_failed ''subgraph unavailable''),
      Call (GetFeedback ''11155111:7'' ''0xk2'' (Num 0)), Log Feedback_retrieved]"
  by (simp add: search_fails_env_def sample_env_def main_defs)

subsection \<open>MCP capability probing\<close>

lemma fetch_capability_returns: "\<exists>names. snd (fetch_capability env kind) = Inr names"
  unfolding fetch_capability_def
  by (simp add: io_proj io_defs Let_def split: outcome.splits sum.splits)

lemma fetch_capability_network_failure:
  "fetch_mcp env kind = Throws e \<Longrightarrow>
   fetch_capability env kind = ([Call (Fetch_mcp kind), Log (Could_not_fetch kind e)], Inr [])"
  by (simp add: fetch_capability_def io_defs)

lemma fetch_capability_bad_status:
  "fetch_mcp env kind = Returns r \<Longrightarrow> \<not> resp_ok r \<Longrightarrow>
   fetch_capability env kind = ([Call (Fetch_mcp kind)], Inr [])"
  by (simp add: fetch_capability_def io_defs)

lemma fetch_capability_no_result:
  "fetch_mcp env kind = Returns r \<Longrightarrow> resp_ok r \<Longrightarrow> body r = Returns (Obj payload) \<Longrightarrow>
   map_of payload ''result'' = None \<Longrightarrow>
   fetch_capability env kind = ([Call (Fetch_mcp kind)], Inr [])"
  by (simp add: fetch_capability_def io_defs)

lemma fetch_capability_bad_body:
  "fetch_mcp env kind = Returns r \<Longrightarrow> resp_ok r \<Longrightarrow> body r = Throws e \<Longrightarrow>
   fetch_capability env kind = ([Call (Fetch_mcp kind), Log (Could_not_fetch kind e)], Inr [])"
  by (simp add: fetch_capability_def io_defs)

lemma fetch_capability_own_response:
  "fetch_mcp env' kind = fetch_mcp env kind \<Longrightarrow>
   fetch_capability env' kind = fetch_capability env kind"
  by (simp add: fetch_capability_def)

lemma fetch_mcp_capabilities_all:
  "\<exists>t p r. snd (fetch_capability env Tools) = Inr t \<and>
     snd (fetch_capability env Prompts) = Inr p \<and>
     snd (fetch_capability env Resources) = Inr r \<and>
     fetch_mcp_capabilities env =
       (fst (fetch_capability env Tools) @ fst (fetch_capability env Prompts) @
        fst (fetch_capability env Resources), Inr (t, p, r))"
proof -
  obtain t p r where "snd (fetch_capability env Tools) = Inr t"
    "snd (fetch_capability env Prompts) = Inr p" "snd (fetch_capability env Resources) = Inr r"
    using fetch_capability_returns by metis
  then show ?thesis
    unfolding fetch_mcp_capabilities_def
    by (cases "fetch_capability env Tools"; cases "fetch_capability env Prompts";
        cases "fetch_capability env Resources") (simp add: io_defs)
qed

lemma get_prop_opt_prop:
  "v \<noteq> Undefined \<Longrightarrow> v \<noteq> Null \<Longrightarrow> get_prop v k = Returns (opt_prop v k)"
  by (cases v) simp_all

lemma get_prop_nullish:
  "v = Undefined \<or> v = Null \<Longrightarrow> \<exists>e. get_prop v k = Throws e"
  by auto

lemma entry_name_nullish:
  "x = Undefined \<or> x = Null \<Longrightarrow> \<exists>e. entry_name kind x = Throws e"
  by (cases kind) auto

lemma map_outcome_nullish:
  "Null \<in> set xs \<or> Undefined \<in> set xs \<Longrightarrow> \<exists>e. map_outcome (entry_name kind) xs = Throws e"
proof (induction xs)
  case Nil
  then show ?case by simp
next
  case (Cons x xs)
  show ?case
  proof (cases "entry_name kind x")
    case (Throws e)
    then show ?thesis by simp
  next
    case (Returns y)
    then have "x \<noteq> Null" and "x \<noteq> Undefined"
      using entry_name_nullish [of x kind] by auto
    with Cons.prems have "Null \<in> set xs \<or> Undefined \<in> set xs" by auto
    then obtain e where "map_outcome (entry_name kind) xs = Throws e"
      using Cons.IH by blast
    with Returns show ?thesis by simp
  qed
qed

lemma fetch_capability_lists_nothing:
  assumes "listing env kind = None"
  shows "snd (fetch_capability env kind) = Inr []"
proof (cases "fetch_mcp env kind")
  case (Throws e)
  then show ?thesis by (simp add: fetch_capability_def io_defs)
next
  case r: (Returns r)
  show ?thesis
  proof (cases "resp_ok r")
    case False
    with r show ?thesis by (simp add: fetch_capability_def io_defs)
  next
    case ok: True
    show ?thesis
    proof (cases "body r")
      case (Throws e)
      with r ok show ?thesis by (simp add: fetch_capability_def io_defs)
    next
      case data: (Returns data)
      show ?thesis
      proof (cases "data = Undefined \<or> data = Null")
        case True
        then obtain e where "get_prop data ''result'' = Throws e"
          using get_prop_nullish by blast
        with r ok data show ?thesis by (simp add: fetch_capability_def io_defs)
      next
        case False
        then have res: "get_prop data ''result'' = Returns (opt_prop data ''result'')"
          by (simp add: get_prop_opt_prop)
        let ?listed = "opt_prop (opt_prop data ''result'') (list_field kind)"
        have shape: "(\<forall>items. ?listed \<noteq> Arr items) \<or>
                     (\<exists>items. ?listed = Arr items \<and> (Null \<in> set items \<or> Undefined \<in> set items))"
          using assms r ok data
          by (auto simp: listing_def split: jsval.splits if_splits)
        have "\<not> truthy ?listed \<or> (\<exists>e. js_map (entry_name kind) ?listed = Throws e)"
          using shape map_outcome_nullish [of _ kind]
          by (cases ?listed) (auto simp: js_map_def)
        then show ?thesis
          using r ok data res
          by (auto simp: fetch_capability_def io_defs Let_def)
      qed
    qed
  qed
qed

lemma create_agent_reaches_setMCP:
  assumes "createAgent env = Returns ()"
  shows "\<exists>pre post. fst (create_agent env) =
           pre @ fst (fetch_mcp_capabilities env) @ Call SetMCP # post"
proof -
  obtain ls items where sa: "searchAgentsInSubgraph env 0 = (ls, Inr items)"
    using searchAgentsInSubgraph_returns [of env 0]
    by (cases "searchAgentsInSubgraph env 0") auto
  obtain lp t p r where fc: "fetch_mcp_capabilities env = (lp, Inr (t, p, r))"
    using fetch_mcp_capabilities_all [of env] by auto
  have "\<exists>post. fst (create_agent env) =
          (ls @ [Call CreateAgent, Log Agent_created]) @ lp @ Call SetMCP # post"
    using assms
    by (cases "setMCP env")
       (simp_all add: create_agent_def sa fc io_defs io_proj)
  then show ?thesis using fc by (metis fst_conv)
qed

lemma create_agent_completes:
  assumes "createAgent env = Returns ()" and "setMCP env = Returns ()"
    and "setMcpCapabilities env = Returns ()" and "setActive env = Returns ()"
    and "\<forall>k names. snd (fetch_capability env k) = Inr names \<longrightarrow> stringable (Arr names)"
  shows "snd (create_agent env) = Inr ()"
proof -
  obtain ls items where sa: "searchAgentsInSubgraph env 0 = (ls, Inr items)"
    using searchAgentsInSubgraph_returns [of env 0]
    by (cases "searchAgentsInSubgraph env 0") auto
  obtain t p r where t: "snd (fetch_capability env Tools) = Inr t"
    and p: "snd (fetch_capability env Prompts) = Inr p"
    and r: "snd (fetch_capability env Resources) = Inr r"
    and fc: "fetch_mcp_capabilities env =
       (fst (fetch_capability env Tools) @ fst (fetch_capability env Prompts) @
        fst (fetch_capability env Resources), Inr (t, p, r))"
    using fetch_mcp_capabilities_all [of env] by auto
  have "js_join t = Returns ()" "js_join p = Returns ()" "js_join r = Returns ()"
    using assms(5) t p r by (auto simp: js_join_def to_string_def)
  then show ?thesis
    using assms(1-4)
    by (simp add: create_agent_def sa fc io_defs io_proj)
qed

lemma main_contains_create_agent:
  assumes "snd (configure env) = Inr (s, fs)" and "snd (initialize env s fs) = Inr sdk"
  shows "set (fst (create_agent env)) \<subseteq> set (fst (run (main env)))"
proof -
  obtain lc where c: "configure env = (lc, Inr (s, fs))"
    using assms(1) by (cases "configure env") simp
  obtain li where i: "initialize env s fs = (li, Inr sdk)"
    using assms(2) by (cases "initialize env s fs") simp
  have "set (fst (create_agent env)) \<subseteq> set (fst (steps_1_to_7 env))"
    by (auto simp: steps_1_to_7_def c i io_then_def fst_io_bind)
  moreover have "set (fst (steps_1_to_7 env)) \<subseteq> set (fst (main env))"
    by (auto simp: main_def main_with_score_def fst_io_bind)
  moreover have "set (fst (main env)) \<subseteq> set (fst (run (main env)))"
    by (cases "main env") (auto simp: run_def split: sum.splits)
  ultimately show ?thesis by blast
qed

text \<open>
  A name that cannot be converted to a string: the probe keeps the list and logs the
  warning in place of the line that reports it (line 270), and the joins of lines 333-335
  throw inside the outer \<open>try\<close>, so that the run ends with status 1.
\<close>

lemma unprintable_name_run:
  "fetch_capability unprintable_name_env Tools =
     ([Call (Fetch_mcp Tools),
       Log (Could_not_fetch Tools ''TypeError: Cannot convert object to primitive value'')],
      Inr [Obj [(''toString'', Num 1)]]) \<and>
   snd (run (main unprintable_name_env)) = 1"
  by (simp add: unprintable_name_env_def sample_env_def main_defs)

text \<open>
  Claim C4, as the code has it. The probe of a capability kind never throws, and what it
  yields depends on the response to its own request only; the three probes run one after
  the other whatever each of them met, and a run that reached them goes on to the call of
  \<open>setMCP\<close>. A response that lists no capabilities (a request that throws, a status
  outside 200-299, a body that cannot be decoded, no \<open>result\<close> field, a list that is no
  array or holds \<open>null\<close>) gives the empty list. A request that throws (network failure)
  or a body that cannot be decoded logs a warning; a status outside 200-299 or a response
  without a \<open>result\<close> field logs nothing. When the SDK calls of the step return and the
  names of every list can be converted to strings, as those of an empty list can, the
  step that holds the probes completes.
\<close>

theorem probing_degrades_per_kind:
  "(\<exists>names. snd (fetch_capability env kind) = Inr names) \<and>
   (listing env kind = None \<longrightarrow> snd (fetch_capability env kind) = Inr []) \<and>
   (\<forall>e. fetch_mcp env kind = Throws e \<longrightarrow>
      fetch_capability env kind =
        ([Call (Fetch_mcp kind), Log (Could_not_fetch kind e)], Inr [])) \<and>
   (\<forall>r e. fetch_mcp env kind = Returns r \<and> resp_ok r \<and> body r = Throws e \<longrightarrow>
      fetch_capability env kind =
        ([Call (Fetch_mcp kind), Log (Could_not_fetch kind e)], Inr [])) \<and>
   (\<forall>r. fetch_mcp env kind = Returns r \<and> \<not> resp_ok r \<longrightarrow>
      fetch_capability env kind = ([Call (Fetch_mcp kind)], Inr [])) \<and>
   (\<forall>r payload. fetch_mcp env kind = Returns r \<and> resp_ok r \<and>
      body r = Returns (Obj payload) \<and> map_of payload ''result'' = None \<longrightarrow>
      fetch_capability env kind = ([Call (Fetch_mcp kind)], Inr [])) \<and>
   (\<forall>env'. fetch_mcp env' kind = fetch_mcp env kind \<longrightarrow>
      fetch_capability env' kind = fetch_capability env kind) \<and>
   (\<exists>t p r. snd (fetch_capability env Tools) = Inr t \<and>
      snd (fetch_capability env Prompts) = Inr p \<and>
      snd (fetch_capability env Resources) = Inr r \<and>
      fetch_mcp_capabilities env =
        (fst (fetch_capability env Tools) @ fst (fetch_capability env Prompts) @
         fst (fetch_capability env Resources), Inr (t, p, r))) \<and>
   (createAgent env = Returns () \<longrightarrow>
      (\<exists>pre post. fst (create_agent env) =
         pre @ fst (fetch_mcp_capabilities env) @ Call SetMCP # post)) \<and>
   (\<forall>s fs sdk. snd (configure env) = Inr (s, fs) \<and> snd (initialize env s fs) = Inr sdk \<and>
      createAgent env = Returns () \<longrightarrow> Call SetMCP \<in> set (fst (run (main env)))) \<and>
   (createAgent env = Returns () \<and> setMCP env = Returns () \<and>
    setMcpCapabilities env = Returns () \<and> setActive env = Returns () \<and>
    (\<forall>k names. snd (fetch_capability env k) = Inr names \<longrightarrow> stringable (Arr names)) \<longrightarrow>
      snd (create_agent env) = Inr ())"
proof -
  have reach: "Call SetMCP \<in> set (fst (run (main env)))"
    if "snd (configure env) = Inr (s, fs)" "snd (initialize env s fs) = Inr sdk"
      "createAgent env = Returns ()" for s fs sdk
  proof -
    have "Call SetMCP \<in> set (fst (create_agent env))"
      using create_agent_reaches_setMCP [OF that(3)] by auto
    then show ?thesis
      using main_contains_create_agent [OF that(1) that(2)] by blast
  qed
  show ?thesis
    using fetch_capability_returns [of env kind] fetch_capability_lists_nothing [of env kind]
      fetch_capability_network_failure [of env kind]
      fetch_capability_bad_body [of env kind] fetch_capability_bad_status [of env kind]
      fetch_capability_no_result [of env kind] fetch_capability_own_response [of _ kind env]
      fetch_mcp_capabilities_all [of env] create_agent_reaches_setMCP [of env]
      reach create_agent_completes [of env]
    by (intro conjI) blast+
qed

text \<open>
  With status 500 for \<open>tools/list\<close> and 200 for the other two: no tools, the prompts and
  the resources of the server; the step completes and the run calls \<open>setMCP\<close>.
\<close>

theorem probing_degrades_per_kind_witness:
  "listing tools_500_env Tools = None \<and>
   fetch_capability tools_500_env Tools = ([Call (Fetch_mcp Tools)], Inr []) \<and>
   snd (fetch_mcp_capabilities tools_500_env) =
     Inr ([], [Str ''status''], [Str ''fluidsdk://status'']) \<and>
   snd (create_agent tools_500_env) = Inr () \<and>
   Call SetMCP \<in> set (fst (run (main tools_500_env)))"
proof -
  note th = probing_degrades_per_kind [of tools_500_env Tools]
  have a: "fetch_mcp tools_500_env Tools =
      Returns \<lparr> status = 500, body = Throws ''SyntaxError: Unexpected token'' \<rparr>"
    by (simp add: tools_500_env_def)
  have b: "\<not> resp_ok \<lparr> status = 500, body = Throws ''SyntaxError: Unexpected token'' \<rparr>"
    by (simp add: resp_ok_def)
  have l: "listing tools_500_env Tools = None"
    by (simp add: listing_def a b)
  have c: "snd (fetch_capability tools_500_env Prompts) = Inr [Str ''status'']"
    and d: "snd (fetch_capability tools_500_env Resources) = Inr [Str ''fluidsdk://status'']"
    by (simp_all add: tools_500_env_def sample_env_def main_defs)
  have "\<forall>r. fetch_mcp tools_500_env Tools = Returns r \<and> \<not> resp_ok r \<longrightarrow>
      fetch_capability tools_500_env Tools = ([Call (Fetch_mcp Tools)], Inr [])"
    using th [THEN conjunct2, THEN conjunct2, THEN conjunct2, THEN conjunct2, THEN conjunct1] .
  then have e: "fetch_capability tools_500_env Tools = ([Call (Fetch_mcp Tools)], Inr [])"
    using a b by blast
  have "\<exists>t p r. snd (fetch_capability tools_500_env Tools) = Inr t \<and>
      snd (fetch_capability tools_500_env Prompts) = Inr p \<and>
      snd (fetch_capability tools_500_env Resources) = Inr r \<and>
      fetch_mcp_capabilities tools_500_env =
        (fst (fetch_capability tools_500_env Tools) @ fst (fetch_capability tools_500_env Prompts) @
         fst (fetch_capability tools_500_env Resources), Inr (t, p, r))"
    using th [THEN conjunct2, THEN conjunct2, THEN conjunct2, THEN conjunct2, THEN conjunct2,
              THEN conjunct2, THEN conjunct2, THEN conjunct1] .
  then have f: "snd (fetch_mcp_capabilities tools_500_env) =
      Inr ([], [Str ''status''], [Str ''fluidsdk://status''])"
    using c d e by auto
  have calls: "createAgent tools_500_env = Returns () \<and> setMCP tools_500_env = Returns () \<and>
      setMcpCapabilities tools_500_env = Returns () \<and> setActive tools_500_env = Returns ()"
    by (simp add: tools_500_env_def sample_env_def)
  have printable: "\<forall>k names. snd (fetch_capability tools_500_env k) = Inr names \<longrightarrow>
      stringable (Arr names)"
  proof (intro allI impI)
    fix k names assume "snd (fetch_capability tools_500_env k) = Inr names"
    then show "stringable (Arr names)" using c d e by (cases k) auto
  qed
  have g: "snd (create_agent tools_500_env) = Inr ()"
    using th [THEN conjunct2, THEN conjunct2, THEN conjunct2, THEN conjunct2, THEN conjunct2,
              THEN conjunct2, THEN conjunct2, THEN conjunct2, THEN conjunct2, THEN conjunct2]
      calls printable by blast
  have steps: "snd (configure tools_500_env) = Inr (''0xk1'', Some ''0xk2'') \<and>
      snd (initialize tools_500_env ''0xk1'' (Some ''0xk2'')) =
        Inr \<lparr> isReadOnly = False, ipfsClient = True \<rparr>"
    by (simp add: tools_500_env_def sample_env_def main_defs)
  have h: "Call SetMCP \<in> set (fst (run (main tools_500_env)))"
    using th [THEN conjunct2, THEN conjunct2, THEN conjunct2, THEN conjunct2, THEN conjunct2,
              THEN conjunct2, THEN conjunct2, THEN conjunct2, THEN conjunct2, THEN conjunct1]
      steps calls by blast
  from l e f g h show ?thesis by simp
qed

text \<open>
  Claim C4 as stated says that every degraded kind comes with a logged warning. With
  status 500 for \<open>tools/list\<close> the probe of the tools logs nothing.
\<close>

theorem silent_degradation_counterexample:
  "fetch_capability tools_500_env Tools = ([Call (Fetch_mcp Tools)], Inr [])"
  by (simp add: tools_500_env_def sample_env_def main_defs)

subsection \<open>Read-only mode\<close>

lemma read_test_returns: "snd (read_test c out report) = Inr ()"
  unfolding read_test_def
  by (simp add: io_proj io_defs split: outcome.splits sum.splits)

lemma read_test_quiet:
  "no_chain_write (Call c) \<Longrightarrow> (\<forall>k. c \<noteq> New_Wallet k) \<Longrightarrow>
   emits_only (\<lambda>e. no_chain_write e \<and> (\<forall>k. e \<noteq> Call (New_Wallet k))) (read_test c out report)"
  unfolding read_test_def
  by (auto intro!: emits_only_intros)

lemma optional_signer_none:
  "configured (PRIVATE_KEY env) = None \<Longrightarrow> optional_signer env = ([Log Read_only_notice], Inr None)"
  by (simp add: optional_signer_def io_defs)

lemma test_suite_read_only:
  "emits_only (\<lambda>e. no_chain_write e \<and> (\<forall>k. e \<noteq> Call (New_Wallet k))) (test_suite env None)"
  unfolding test_suite_def Let_def
  by (auto intro!: emits_only_intros read_test_quiet simp: FluidSDK_def split: option.splits)

lemma test_suite_mode:
  "\<exists>rest. fst (test_suite env None) = Log Sdk_initialized # Call ChainId # rest \<and>
     (\<forall>c. chainId env = Returns c \<longrightarrow> (\<exists>rest'. rest = Log (Read_only_mode True) # rest'))"
  unfolding test_suite_def Let_def
  by (cases "chainId env"; cases "registries env") (simp_all add: io_defs FluidSDK_def)

lemma test_suite_completes:
  assumes "chainId env = Returns c"
    and "registries env = Returns regs" and "createAgent env = Returns ()"
  shows "snd (test_suite env None) = Inr ()"
  using assms unfolding test_suite_def Let_def
  by (simp add: io_proj io_defs FluidSDK_def read_test_returns split: option.splits)

text \<open>
  Claim C5, as the code has it. Without a private key the basic test suite runs in
  read-only mode: the SDK is constructed without a signer and reports \<open>isReadOnly\<close>
  (constructor as the specification describes it); the script says that it runs read-only
  and, once the chain identifier is known, logs the flag as true; it creates no wallet and
  makes no write call; and it ends with status 0 when the three calls outside a \<open>try\<close>
  succeed. The full-flow script, whose later steps are writes, ends with status 1 before
  any call.
\<close>

theorem read_only_mode_without_key:
  assumes "configured (PRIVATE_KEY env) = None"
  shows
    "isReadOnly (FluidSDK \<lparr> cfg_signer = None, cfg_ipfs = None, cfg_pinataJwt = None \<rparr>) \<and>
     (\<exists>rest. fst (indextest_main env) =
        Log Read_only_notice # Log Sdk_initialized # Call ChainId # rest \<and>
        (\<forall>c. chainId env = Returns c \<longrightarrow> (\<exists>rest'. rest = Log (Read_only_mode True) # rest'))) \<and>
     (\<forall>e\<in>set (fst (indextest_main env)).
        e \<noteq> Call RegisterIPFS \<and> (\<forall>a s. e \<noteq> Call (PrepareFeedback a s)) \<and>
        (\<forall>a r. e \<noteq> Call (GiveFeedback a r)) \<and> (\<forall>k. e \<noteq> Call (New_Wallet k))) \<and>
     (\<forall>c regs. chainId env = Returns c \<and> registries env = Returns regs \<and>
        createAgent env = Returns () \<longrightarrow> snd (run (indextest_main env)) = 0) \<and>
     snd (run (main env)) = 1 \<and> fst (main env) = []"
proof -
  have m: "indextest_main env = (Log Read_only_notice # fst (test_suite env None), snd (test_suite env None))"
    by (simp add: indextest_main_def optional_signer_none [OF assms])
  have 1: "isReadOnly (FluidSDK \<lparr> cfg_signer = None, cfg_ipfs = None, cfg_pinataJwt = None \<rparr>)"
    by (simp add: FluidSDK_def)
  have 2: "\<exists>rest. fst (indextest_main env) =
        Log Read_only_notice # Log Sdk_initialized # Call ChainId # rest \<and>
        (\<forall>c. chainId env = Returns c \<longrightarrow> (\<exists>rest'. rest = Log (Read_only_mode True) # rest'))"
    using test_suite_mode [of env] by (simp add: m)
  have 3: "\<forall>e\<in>set (fst (indextest_main env)).
        e \<noteq> Call RegisterIPFS \<and> (\<forall>a s. e \<noteq> Call (PrepareFeedback a s)) \<and>
        (\<forall>a r. e \<noteq> Call (GiveFeedback a r)) \<and> (\<forall>k. e \<noteq> Call (New_Wallet k))"
    using test_suite_read_only [of env]
    by (auto simp: m emits_only_def no_chain_write_def no_feedback_call_def)
  have 4: "\<forall>c regs. chainId env = Returns c \<and> registries env = Returns regs \<and>
        createAgent env = Returns () \<longrightarrow> snd (run (indextest_main env)) = 0"
    using test_suite_completes [of env] by (auto simp: m snd_run)
  have 5: "snd (run (main env)) = 1 \<and> fst (main env) = []"
    by (simp add: main_def main_with_score_def steps_1_to_7_def
          configure_without_key [OF assms] run_def)
  from 1 2 3 4 5 show ?thesis by blast
qed

theorem read_only_mode_without_key_witness:
  "configured (PRIVATE_KEY no_key_env) = None \<and>
   chainId no_key_env = Returns 11155111 \<and>
   registries no_key_env = Returns [(''IDENTITY'', ''0x1'')] \<and>
   createAgent no_key_env = Returns () \<and>
   snd (run (indextest_main no_key_env)) = 0 \<and>
   snd (run (main no_key_env)) = 1"
proof -
  have a: "configured (PRIVATE_KEY no_key_env) = None"
    by (simp add: no_key_env_def sample_env_def configured_def)
  have b: "chainId no_key_env = Returns 11155111 \<and>
      registries no_key_env = Returns [(''IDENTITY'', ''0x1'')] \<and>
      createAgent no_key_env = Returns ()"
    by (simp add: no_key_env_def sample_env_def)
  show ?thesis
    using a b read_only_mode_without_key [OF a] by blast
qed

text \<open>
  Claim C5 as stated says that the absent key is not treated as a configuration failure.
  The full-flow script does treat it so (lines 151-153).
\<close>

theorem full_flow_requires_key_counterexample:
  "configured (PRIVATE_KEY no_key_env) = None \<and>
   run (main no_key_env) =
     ([Log (Fatal_error ''PRIVATE_KEY not set in .env file - write operations require a signer'')], 1)"
  by (simp add: no_key_env_def sample_env_def main_defs)

subsection \<open>The guards of the registration step\<close>

text \<open>
  Claim C6. When no pinning credential is configured, or the balance of the owner's wallet
  is zero, the run ends with status 1 and never calls \<open>registerIPFS\<close>.
\<close>

theorem registration_guards_are_fatal:
  assumes "configured (PINATA_JWT env) = None \<or>
           (\<exists>key signer. configured (PRIVATE_KEY env) = Some key \<and> wallet env key = Returns signer \<and>
              getBalance env signer = Returns 0)"
  shows "snd (run (main env)) = 1 \<and> Call RegisterIPFS \<notin> set (fst (run (main env)))"
proof -
  obtain l e where s: "steps_1_to_7 env = (l, Inl e)" and q: "\<forall>ev\<in>set l. no_chain_write ev"
    using guarded_steps_fail [OF assms] by blast
  have "run (main env) = (l @ [Log (Fatal_error e)], 1)"
    by (simp add: main_def main_with_score_def s run_def)
  with q show ?thesis by (auto simp: no_chain_write_def)
qed

theorem registration_guards_are_fatal_witness:
  "configured (PINATA_JWT no_ipfs_env) = None \<and>
   snd (run (main no_ipfs_env)) = 1 \<and> Call RegisterIPFS \<notin> set (fst (run (main no_ipfs_env))) \<and>
   configured (PRIVATE_KEY empty_wallet_env) = Some ''k1'' \<and>
   wallet empty_wallet_env ''k1'' = Returns ''0xk1'' \<and>
   getBalance empty_wallet_env ''0xk1'' = Returns 0 \<and>
   snd (run (main empty_wallet_env)) = 1 \<and>
   Call RegisterIPFS \<notin> set (fst (run (main empty_wallet_env)))"
proof -
  have a: "configured (PINATA_JWT no_ipfs_env) = None"
    by (simp add: no_ipfs_env_def sample_env_def configured_def)
  have b: "configured (PRIVATE_KEY empty_wallet_env) = Some ''k1'' \<and>
      wallet empty_wallet_env ''k1'' = Returns ''0xk1'' \<and>
      getBalance empty_wallet_env ''0xk1'' = Returns 0"
    by (simp add: empty_wallet_env_def sample_env_def configured_def)
  from a have "configured (PINATA_JWT no_ipfs_env) = None \<or>
           (\<exists>key signer. configured (PRIVATE_KEY no_ipfs_env) = Some key \<and>
              wallet no_ipfs_env key = Returns signer \<and> getBalance no_ipfs_env signer = Returns 0)"
    by simp
  note w1 = registration_guards_are_fatal [OF this]
  from b have "configured (PINATA_JWT empty_wallet_env) = None \<or>
           (\<exists>key signer. configured (PRIVATE_KEY empty_wallet_env) = Some key \<and>
              wallet empty_wallet_env key = Returns signer \<and>
              getBalance empty_wallet_env signer = Returns 0)"
    by blast
  note w2 = registration_guards_are_fatal [OF this]
  from a b w1 w2 show ?thesis by simp
qed

subsection \<open>A score outside the documented range\<close>

text \<open>
  Claim C7. A score outside 1 to 5 is rejected by \<open>prepareFeedback\<close> (validation as the
  specification describes it) and not clamped. The feedback step catches the rejection:
  it logs the error, submits nothing and returns; a run that reached the feedback step
  with a reviewer goes on to the last search and ends with status 0.
\<close>

theorem out_of_range_score_is_reported:
  assumes "score < 1 \<or> 5 < score"
  shows "prepareFeedback env a score = Throws ''score must be between 1 and 5'' \<and>
         submit_feedback score env a (Some reviewer) =
           ([Call (PrepareFeedback a score),
             Log (Error_in_feedback_flow ''score must be between 1 and 5'')], Inr ()) \<and>
         (snd (steps_1_to_7 env) = Inr (a, Some reviewer) \<longrightarrow>
            snd (run (main_with_score score env)) = 0 \<and>
            Log (Error_in_feedback_flow ''score must be between 1 and 5'')
              \<in> set (fst (run (main_with_score score env))) \<and>
            (\<forall>a' r. Call (GiveFeedback a' r) \<notin> set (fst (run (main_with_score score env)))))"
proof -
  have rej: "prepareFeedback env a score = Throws ''score must be between 1 and 5''"
    using assms by (auto simp: prepareFeedback_def)
  then have sub: "submit_feedback score env a (Some reviewer) =
           ([Call (PrepareFeedback a score),
             Log (Error_in_feedback_flow ''score must be between 1 and 5'')], Inr ())"
    by (simp add: submit_feedback_def io_defs)
  have "snd (run (main_with_score score env)) = 0 \<and>
        Log (Error_in_feedback_flow ''score must be between 1 and 5'')
          \<in> set (fst (run (main_with_score score env))) \<and>
        (\<forall>a' r. Call (GiveFeedback a' r) \<notin> set (fst (run (main_with_score score env))))"
    if reach: "snd (steps_1_to_7 env) = Inr (a, Some reviewer)"
  proof -
    obtain l where s: "steps_1_to_7 env = (l, Inr (a, Some reviewer))"
      using reach by (cases "steps_1_to_7 env") simp
    have ql: "\<forall>ev\<in>set l. no_feedback_call ev"
      using steps_1_to_7_quiet [of env] by (simp add: s emits_only_pair)
    obtain lf where f: "finish env a (Some reviewer) = (lf, Inr ())"
      using finish_returns [of env a "Some reviewer"] by (cases "finish env a (Some reviewer)") simp
    have qf: "\<forall>ev\<in>set lf. no_feedback_call ev"
      using finish_quiet [of env a "Some reviewer"] by (simp add: f emits_only_pair no_chain_write_def)
    have "run (main_with_score score env) =
        (l @ [Call (PrepareFeedback a score),
              Log (Error_in_feedback_flow ''score must be between 1 and 5'')] @ lf, 0)"
      by (simp add: main_with_score_def s sub f run_def io_then_def)
    with ql qf show ?thesis by (auto simp: no_feedback_call_def)
  qed
  with rej sub show ?thesis by blast
qed

theorem out_of_range_score_is_reported_witness:
  "((6::int) < 1 \<or> 5 < (6::int)) \<and>
   prepareFeedback sample_env ''11155111:7'' 6 = Throws ''score must be between 1 and 5'' \<and>
   snd (steps_1_to_7 sample_env) = Inr (''11155111:7'', Some ''0xk2'') \<and>
   snd (run (main_with_score 6 sample_env)) = 0 \<and>
   Log (Error_in_feedback_flow ''score must be between 1 and 5'')
     \<in> set (fst (run (main_with_score 6 sample_env))) \<and>
   Call (GiveFeedback ''11155111:7'' ''0xk2'') \<notin> set (fst (run (main_with_score 6 sample_env)))"
proof -
  have a: "(6::int) < 1 \<or> 5 < (6::int)" by simp
  show ?thesis
    using a sample_steps
      out_of_range_score_is_reported [OF a, of sample_env "''11155111:7''" "''0xk2''"]
    by simp
qed

subsection \<open>The names in a probe response\<close>

lemma entry_name_defined:
  "x \<noteq> Undefined \<Longrightarrow> x \<noteq> Null \<Longrightarrow>
   entry_name kind x =
     Returns (if kind = Resources \<and> truthy (opt_prop x ''uri'') then opt_prop x ''uri''
              else opt_prop x ''name'')"
  by (cases kind; cases x) simp_all

lemma map_outcome_Returns:
  "(\<And>x. x \<in> set xs \<Longrightarrow> f x = Returns (g x)) \<Longrightarrow> map_outcome f xs = Returns (map g xs)"
  by (induction xs) simp_all

text \<open>
  Claim C8, as the code has it. For a response with a status from 200 to 299 whose
  \<open>result\<close> lists an array without \<open>null\<close> elements under the kind's field, the probe
  yields, in order: for every tool and every prompt its \<open>name\<close>; for every resource its
  \<open>uri\<close> when that is truthy, and its \<open>name\<close> otherwise, that is when the \<open>uri\<close> is
  absent, \<open>null\<close>, empty, zero or false.
\<close>

theorem capability_names_reduction:
  assumes "fetch_mcp env kind = Returns response"
    and "resp_ok response"
    and "body response = Returns (Obj payload)"
    and "map_of payload ''result'' = Some (Obj res)"
    and "map_of res (list_field kind) = Some (Arr items)"
    and "\<forall>x\<in>set items. x \<noteq> Undefined \<and> x \<noteq> Null"
  shows "snd (fetch_capability env kind) =
           Inr (map (\<lambda>x. if kind = Resources \<and> truthy (opt_prop x ''uri'')
                          then opt_prop x ''uri'' else opt_prop x ''name'') items)"
proof -
  have "js_map (entry_name kind) (Arr items) =
          Returns (map (\<lambda>x. if kind = Resources \<and> truthy (opt_prop x ''uri'')
                          then opt_prop x ''uri'' else opt_prop x ''name'') items)"
    unfolding js_map_def using assms(6)
    by (simp add: map_outcome_Returns entry_name_defined)
  then show ?thesis
    using assms(1-5)
    by (simp add: fetch_capability_def io_defs io_proj split: outcome.splits)
qed

theorem capability_names_reduction_witness:
  "snd (fetch_capability sample_env Resources) = Inr [Str ''fluidsdk://status''] \<and>
   snd (fetch_capability sample_env Tools) = Inr [Str ''status''] \<and>
   snd (fetch_capability empty_uri_env Resources) = Inr [Str ''status'']"
  using capability_names_reduction [where env = sample_env and kind = Resources
          and response = "\<lparr> status = 200, body = Returns
            (Obj [(''result'', Obj [(''resources'',
               Arr [Obj [(''name'', Str ''status''), (''uri'', Str ''fluidsdk://status'')]])])]) \<rparr>"
          and payload = "[(''result'', Obj [(''resources'',
               Arr [Obj [(''name'', Str ''status''), (''uri'', Str ''fluidsdk://status'')]])])]"
          and res = "[(''resources'',
               Arr [Obj [(''name'', Str ''status''), (''uri'', Str ''fluidsdk://status'')]])]"
          and items = "[Obj [(''name'', Str ''status''), (''uri'', Str ''fluidsdk://status'')]]"]
        capability_names_reduction [where env = sample_env and kind = Tools
          and response = "\<lparr> status = 200, body = Returns
            (Obj [(''result'', Obj [(''tools'',
               Arr [Obj [(''name'', Str ''status''), (''uri'', Str ''fluidsdk://status'')]])])]) \<rparr>"
          and payload = "[(''result'', Obj [(''tools'',
               Arr [Obj [(''name'', Str ''status''), (''uri'', Str ''fluidsdk://status'')]])])]"
          and res = "[(''tools'',
               Arr [Obj [(''name'', Str ''status''), (''uri'', Str ''fluidsdk://status'')]])]"
          and items = "[Obj [(''name'', Str ''status''), (''uri'', Str ''fluidsdk://status'')]]"]
        capability_names_reduction [where env = empty_uri_env and kind = Resources
          and response = "\<lparr> status = 200, body = Returns
            (Obj [(''result'', Obj [(''resources'',
               Arr [Obj [(''uri'', Str []), (''name'', Str ''status'')]])])]) \<rparr>"
          and payload = "[(''result'', Obj [(''resources'',
               Arr [Obj [(''uri'', Str []), (''name'', Str ''status'')]])])]"
          and res = "[(''resources'', Arr [Obj [(''uri'', Str []), (''name'', Str ''status'')]])]"
          and items = "[Obj [(''uri'', Str []), (''name'', Str ''status'')]]"]
  by (simp add: sample_env_def empty_uri_env_def resp_ok_def)

text \<open>
  Claim C8 as stated takes the \<open>uri\<close> of every resource that has one. A resource whose
  \<open>uri\<close> is the empty string is listed under its \<open>name\<close>.
\<close>

theorem empty_uri_counterexample:
  "snd (fetch_capability empty_uri_env Resources) = Inr [Str ''status''] \<and>
   map (spec_entry_name Resources) [Obj [(''uri'', Str []), (''name'', Str ''status'')]] =
     [Str []]"
  by (simp add: empty_uri_env_def sample_env_def main_defs spec_entry_name_def)

subsection \<open>The calculate tool\<close>

text \<open>
  Claim C9. In the calculate handler the divide operation is guarded: when \<open>b\<close> is zero
  the result is the text "Error: Division by zero", whatever the division operator would
  have computed (it is not consulted), and the handler returns normally; when \<open>b\<close> is
  not zero the result text reports the quotient of \<open>a\<close> by \<open>b\<close>.
\<close>

theorem calculate_divide_guarded:
  "(is_zero J b \<longrightarrow>
      calculate J ''divide'' a b = TextContent [S ''Error: Division by zero''] \<and>
      calculate (J\<lparr>js_div := d\<rparr>) ''divide'' a b = calculate J ''divide'' a b) \<and>
   (\<not> is_zero J b \<longrightarrow>
      calculate J ''divide'' a b =
        TextContent [S ''Result: '', N a, S '' '', S ''divide'', S '' '', N b, S '' = '',
                     N (js_div J a b)])"
  by (simp add: calculate_def)

theorem calculate_divide_guarded_witness:
  "is_zero rat_number 0 \<and>
   calculate rat_number ''divide'' 7 0 = TextContent [S ''Error: Division by zero''] \<and>
   \<not> is_zero rat_number 2 \<and>
   calculate rat_number ''divide'' 7 2 =
     TextContent [S ''Result: '', N 7, S '' '', S ''divide'', S '' '', N 2, S '' = '', N (7 / 2)]"
  using calculate_divide_guarded [where J = rat_number and b = 0 and a = 7 and d = "(+)"]
        calculate_divide_guarded [where J = rat_number and b = 2 and a = 7 and d = "(+)"]
  by (simp add: rat_number_def)

subsection \<open>The index of the submitted feedback\<close>

lemma length_three: "length xs = 3 \<longleftrightarrow> (\<exists>a b c. xs = [a, b, c])"
  by (auto simp: eval_nat_numeral length_Suc_conv)

lemma feedbackIndex_cases:
  "(fid = Arr [a, b, c] \<longrightarrow> feedbackIndex fid = c) \<and>
   ((\<forall>a b c. fid \<noteq> Arr [a, b, c]) \<longrightarrow> feedbackIndex fid = Num 0)"
  by (cases fid) (auto simp: feedbackIndex_def length_three)

lemma retrieve_first:
  "\<exists>rest. fst (retrieve_specific_feedback env agentId reviewer fb) =
      Call (GetFeedback agentId reviewer (feedbackIndex (fb_id fb))) # rest"
  by (cases "getFeedback env agentId reviewer (feedbackIndex (fb_id fb))")
     (simp_all add: retrieve_specific_feedback_def io_defs io_proj Let_def)

lemma retrieve_feedback_first:
  "\<exists>rest. fst (retrieve_feedback env agentId signer fb) =
      Call (GetFeedback agentId signer (feedbackIndex (fb_id fb))) # rest"
  by (cases "getFeedback env agentId signer (feedbackIndex (fb_id fb))")
     (simp_all add: retrieve_feedback_def io_defs io_proj Let_def)

lemma retrieve_specific_feedback_calls:
  "Call (GetFeedback x y idx) \<in> set (fst (retrieve_specific_feedback env a r fb)) \<longleftrightarrow>
     x = a \<and> y = r \<and> idx = feedbackIndex (fb_id fb)"
  unfolding retrieve_specific_feedback_def Let_def
  by (auto simp: io_proj io_defs split: outcome.splits sum.splits)

lemma retrieve_feedback_calls:
  "Call (GetFeedback x y idx) \<in> set (fst (retrieve_feedback env a r fb)) \<longleftrightarrow>
     x = a \<and> y = r \<and> idx = feedbackIndex (fb_id fb)"
  unfolding retrieve_feedback_def Let_def
  by (auto simp: io_proj io_defs split: outcome.splits sum.splits)

lemma queryFeedbackFromSubgraph_no_retrieval:
  "Call (GetFeedback x y idx) \<notin> set (fst (queryFeedbackFromSubgraph env a))"
  unfolding queryFeedbackFromSubgraph_def
  by (auto simp: io_proj io_defs split: outcome.splits sum.splits)

lemma read_test_calls: "Call c' \<in> set (fst (read_test c out report)) \<longleftrightarrow> c' = c"
  unfolding read_test_def
  by (auto simp: io_proj io_defs split: outcome.splits sum.splits)

lemma submit_feedback_retrieves_returned_index:
  assumes "prepareFeedback env a score = Returns draft"
    and "giveFeedback env a draft reviewer = Returns fb"
  shows "Call (GetFeedback x y idx) \<in> set (fst (submit_feedback score env a (Some reviewer))) \<longleftrightarrow>
           x = a \<and> y = reviewer \<and> idx = feedbackIndex (fb_id fb)"
proof -
  have "fst (submit_feedback score env a (Some reviewer)) =
      [Call (PrepareFeedback a score), Log Feedback_prepared, Call (GiveFeedback a reviewer),
       Log Feedback_submitted, Sleep 10000] @
      fst (queryFeedbackFromSubgraph env a) @ fst (retrieve_specific_feedback env a reviewer fb)"
    using assms queryFeedbackFromSubgraph_returns [of env a]
      retrieve_specific_feedback_returns [of env a reviewer fb]
    by (simp add: submit_feedback_def io_defs io_proj)
  then show ?thesis
    using queryFeedbackFromSubgraph_no_retrieval [of x y idx env a]
      retrieve_specific_feedback_calls [of x y idx env a reviewer fb]
    by auto
qed

lemma fullflow_feedback_retrieves_returned_index:
  assumes "prepareFeedback env a 5 = Returns draft"
    and "giveFeedback env a draft signer = Returns fb"
  shows "Call (GetFeedback x y idx) \<in> set (fst (fullflow_feedback env a signer)) \<longleftrightarrow>
           x = a \<and> y = signer \<and> idx = feedbackIndex (fb_id fb)"
proof -
  have ret: "\<exists>l. retrieve_feedback env a signer fb = (l, Inr ())"
    unfolding retrieve_feedback_def Let_def
    by (cases "getFeedback env a signer (feedbackIndex (fb_id fb))") (simp_all add: io_defs)
  have "set (fst (fullflow_feedback env a signer)) =
      set ([Call (PrepareFeedback a 5), Log Feedback_prepared, Call (GiveFeedback a signer),
       Log Feedback_submitted, Sleep 5000] @
      fst (retrieve_feedback env a signer fb) @
      fst (read_test (SearchFeedback a) (searchFeedback env a)
             (\<lambda>feedbacks. Feedbacks_found (length feedbacks))) @
      fst (read_test (GetReputationSummary a) (getReputationSummary env a)
             (\<lambda>summary. Reputation_summary)))"
    using assms ret read_test_returns [of "SearchFeedback a" "searchFeedback env a"]
    by (auto simp: fullflow_feedback_def io_defs io_proj read_test_returns
          split: sum.splits)
  then show ?thesis
    using retrieve_feedback_calls [of x y idx env a signer fb]
    by (auto simp: read_test_calls)
qed

lemma main_retrieves_returned_index:
  assumes "snd (steps_1_to_7 env) = Inr (a, Some reviewer)"
    and "prepareFeedback env a 5 = Returns draft"
    and "giveFeedback env a draft reviewer = Returns fb"
  shows "Call (GetFeedback a reviewer (feedbackIndex (fb_id fb))) \<in> set (fst (run (main env)))"
proof -
  obtain l where s: "steps_1_to_7 env = (l, Inr (a, Some reviewer))"
    using assms(1) by (cases "steps_1_to_7 env") simp
  have "Call (GetFeedback a reviewer (feedbackIndex (fb_id fb)))
          \<in> set (fst (submit_feedback 5 env a (Some reviewer)))"
    using submit_feedback_retrieves_returned_index [OF assms(2) assms(3)] by simp
  moreover have "set (fst (submit_feedback 5 env a (Some reviewer))) \<subseteq> set (fst (main env))"
    using submit_feedback_returns [of 5 env a "Some reviewer"]
    by (auto simp: main_def main_with_score_def s io_then_def fst_io_bind)
  moreover have "set (fst (main env)) \<subseteq> set (fst (run (main env)))"
    by (cases "main env") (auto simp: run_def split: sum.splits)
  ultimately show ?thesis by blast
qed

text \<open>
  Claim C10. The index is the third element of \<open>feedback.id\<close> when that is an array of
  three elements, and the number 0 in every other case. In both scripts the feedback whose
  \<open>id\<close> is read is the one that \<open>giveFeedback\<close> returned: when the submission returns,
  the feedback step calls \<open>getFeedback\<close> for the agent and the reviewer with the index of
  the returned \<open>id\<close> and with no other index, and so does a whole run of the full flow
  with MCP.
\<close>

theorem feedback_index_third_of_triple:
  "(fid = Arr [a, b, c] \<longrightarrow> feedbackIndex fid = c) \<and>
   ((\<forall>a b c. fid \<noteq> Arr [a, b, c]) \<longrightarrow> feedbackIndex fid = Num 0) \<and>
   (\<exists>rest. fst (retrieve_specific_feedback env agentId reviewer fb) =
      Call (GetFeedback agentId reviewer (feedbackIndex (fb_id fb))) # rest) \<and>
   (\<exists>rest. fst (retrieve_feedback env agentId reviewer fb) =
      Call (GetFeedback agentId reviewer (feedbackIndex (fb_id fb))) # rest) \<and>
   (prepareFeedback env agentId score = Returns draft \<and>
    giveFeedback env agentId draft reviewer = Returns fb \<longrightarrow>
      (\<forall>x y idx.
         Call (GetFeedback x y idx) \<in> set (fst (submit_feedback score env agentId (Some reviewer)))
           \<longleftrightarrow> x = agentId \<and> y = reviewer \<and> idx = feedbackIndex (fb_id fb))) \<and>
   (prepareFeedback env agentId 5 = Returns draft \<and>
    giveFeedback env agentId draft reviewer = Returns fb \<longrightarrow>
      (\<forall>x y idx.
         Call (GetFeedback x y idx) \<in> set (fst (fullflow_feedback env agentId reviewer))
           \<longleftrightarrow> x = agentId \<and> y = reviewer \<and> idx = feedbackIndex (fb_id fb))) \<and>
   (snd (steps_1_to_7 env) = Inr (agentId, Some reviewer) \<and>
    prepareFeedback env agentId 5 = Returns draft \<and>
    giveFeedback env agentId draft reviewer = Returns fb \<longrightarrow>
      Call (GetFeedback agentId reviewer (feedbackIndex (fb_id fb)))
        \<in> set (fst (run (main env))))"
  using feedbackIndex_cases [of fid a b c] retrieve_first [of env agentId reviewer fb]
    retrieve_feedback_first [of env agentId reviewer fb]
    submit_feedback_retrieves_returned_index [of env agentId score draft reviewer fb]
    fullflow_feedback_retrieves_returned_index [of env agentId draft reviewer fb]
    main_retrieves_returned_index [of env agentId reviewer draft fb]
  by (intro conjI) blast+

text \<open>
  An array of three elements, an array of two and a string; and a run in which the
  submitted feedback comes back with the index 4, in either script.
\<close>

theorem feedback_index_third_of_triple_witness:
  "feedbackIndex (Arr [Str ''11155111:7'', Str ''0xk2'', Num 4]) = Num 4 \<and>
   feedbackIndex (Arr [Str ''11155111:7'', Num 4]) = Num 0 \<and>
   feedbackIndex (Str ''11155111:7'') = Num 0 \<and>
   Call (GetFeedback ''11155111:7'' ''0xk2'' (Num 4))
     \<in> set (fst (submit_feedback 5 indexed_feedback_env ''11155111:7'' (Some ''0xk2''))) \<and>
   Call (GetFeedback ''11155111:7'' ''0xk2'' (Num 0))
     \<notin> set (fst (submit_feedback 5 indexed_feedback_env ''11155111:7'' (Some ''0xk2''))) \<and>
   Call (GetFeedback ''11155111:7'' ''0xk1'' (Num 4))
     \<in> set (fst (fullflow_feedback indexed_feedback_env ''11155111:7'' ''0xk1'')) \<and>
   Call (GetFeedback ''11155111:7'' ''0xk2'' (Num 4))
     \<in> set (fst (run (main indexed_feedback_env)))"
proof -
  let ?draft = "\<lparr> ff_agentId = ''11155111:7'', ff_score = 5 \<rparr>"
  let ?fb = "\<lambda>r. \<lparr> fb_id = Arr [Str ''11155111:7'', Str r, Num 4], fb_reviewer = r,
                    fb_score = 5, fb_createdAt = 1700000000 \<rparr>"
  have p: "prepareFeedback indexed_feedback_env ''11155111:7'' 5 = Returns ?draft"
    by (simp add: prepareFeedback_def indexed_feedback_env_def sample_env_def)
  have g: "\<And>r. giveFeedback indexed_feedback_env ''11155111:7'' ?draft r = Returns (?fb r)"
    by (simp add: indexed_feedback_env_def)
  have s: "snd (steps_1_to_7 indexed_feedback_env) = Inr (''11155111:7'', Some ''0xk2'')"
    by (simp add: indexed_feedback_env_def sample_env_def main_defs)
  have i: "\<And>r. feedbackIndex (fb_id (?fb r)) = Num 4"
    by (simp add: feedbackIndex_def)
  note t1 = feedback_index_third_of_triple [where fid = "Arr [Str ''11155111:7'', Str ''0xk2'', Num 4]"
          and a = "Str ''11155111:7''" and b = "Str ''0xk2''" and c = "Num 4"
          and env = indexed_feedback_env and agentId = "''11155111:7''" and score = 5
          and draft = ?draft and reviewer = "''0xk2''" and fb = "?fb ''0xk2''"]
  note t2 = feedback_index_third_of_triple [where fid = "Arr [Str ''11155111:7'', Num 4]"
          and env = indexed_feedback_env and agentId = "''11155111:7''" and score = 5
          and draft = ?draft and reviewer = "''0xk1''" and fb = "?fb ''0xk1''"]
  note t3 = feedback_index_third_of_triple [where fid = "Str ''11155111:7''"]
  have 1: "feedbackIndex (Arr [Str ''11155111:7'', Str ''0xk2'', Num 4]) = Num 4"
    using t1 [THEN conjunct1] by simp
  have 2: "feedbackIndex (Arr [Str ''11155111:7'', Num 4]) = Num 0"
    using t2 [THEN conjunct2, THEN conjunct1] by simp
  have 3: "feedbackIndex (Str ''11155111:7'') = Num 0"
    using t3 [THEN conjunct2, THEN conjunct1] by simp
  have 4: "\<forall>x y idx.
      Call (GetFeedback x y idx)
        \<in> set (fst (submit_feedback 5 indexed_feedback_env ''11155111:7'' (Some ''0xk2'')))
      \<longleftrightarrow> x = ''11155111:7'' \<and> y = ''0xk2'' \<and> idx = Num 4"
    using t1 [THEN conjunct2, THEN conjunct2, THEN conjunct2, THEN conjunct2, THEN conjunct1]
      p g [of "''0xk2''"] i [of "''0xk2''"] by simp
  have 5: "\<forall>x y idx.
      Call (GetFeedback x y idx)
        \<in> set (fst (fullflow_feedback indexed_feedback_env ''11155111:7'' ''0xk1''))
      \<longleftrightarrow> x = ''11155111:7'' \<and> y = ''0xk1'' \<and> idx = Num 4"
    using t2 [THEN conjunct2, THEN conjunct2, THEN conjunct2, THEN conjunct2, THEN conjunct2,
              THEN conjunct1]
      p g [of "''0xk1''"] i [of "''0xk1''"] by simp
  have 6: "Call (GetFeedback ''11155111:7'' ''0xk2'' (Num 4))
      \<in> set (fst (run (main indexed_feedback_env)))"
    using t1 [THEN conjunct2, THEN conjunct2, THEN conjunct2, THEN conjunct2, THEN conjunct2,
              THEN conjunct2]
      s p g [of "''0xk2''"] i [of "''0xk2''"] by simp
  from 1 2 3 4 5 6 show ?thesis by simp
qed

end
